theory Spec2Isabelle
  imports Main "HOL-Library.AList"
begin

section \<open>Go primitives used by the rotating file writer\<close>

text \<open>
  The writer of \<^verbatim>\<open>hooks/file/file.go\<close> is embedded as pure functions over an explicit
  operating-system state. Go's \<^verbatim>\<open>int\<close> counters are unbounded integers here (they count
  bytes and lines of one file); the one computation whose 64-bit wrap-around is
  reachable from the configuration, the retention period, has the wrap written out.
\<close>

type_synonym path = string

text \<open>Go's integer division and remainder truncate toward zero.\<close>

definition go_div :: "int \<Rightarrow> int \<Rightarrow> int" where
  "go_div a b = sgn a * sgn b * (\<bar>a\<bar> div \<bar>b\<bar>)"

definition go_mod :: "int \<Rightarrow> int \<Rightarrow> int" where
  "go_mod a b = a - b * go_div a b"

text \<open>Indexing a constant string; \<open>None\<close> is the index-out-of-range panic.\<close>

definition at_index :: "string \<Rightarrow> int \<Rightarrow> char option" where
  "at_index s i = (if 0 \<le> i \<and> i < int (length s) then Some (s ! nat i) else None)"

text \<open>The wrap-around of a signed 64-bit value (\<^verbatim>\<open>int64\<close>, \<^verbatim>\<open>time.Duration\<close>).\<close>

definition wrap64 :: "int \<Rightarrow> int" where
  "wrap64 x = (x + 2 ^ 63) mod 2 ^ 64 - 2 ^ 63"

text \<open>\<^verbatim>\<open>strings.HasPrefix\<close>, \<^verbatim>\<open>strings.HasSuffix\<close> and \<^verbatim>\<open>strings.TrimSuffix\<close>.\<close>

definition HasPrefix :: "string \<Rightarrow> string \<Rightarrow> bool" where
  "HasPrefix s p = (length p \<le> length s \<and> take (length p) s = p)"

definition HasSuffix :: "string \<Rightarrow> string \<Rightarrow> bool" where
  "HasSuffix s x = (length x \<le> length s \<and> drop (length s - length x) s = x)"

definition TrimSuffix :: "string \<Rightarrow> string \<Rightarrow> string" where
  "TrimSuffix s x = (if HasSuffix s x then take (length s - length x) s else s)"

text \<open>
  \<^verbatim>\<open>path/filepath\<close> with the separator \<^verbatim>\<open>/\<close>. \<^verbatim>\<open>Ext\<close> scans back from the end to the
  last dot of the last element. \<^verbatim>\<open>Base\<close> strips the trailing separators and takes the
  last element. \<^verbatim>\<open>Clean\<close> drops empty and \<^verbatim>\<open>.\<close> elements and resolves \<^verbatim>\<open>..\<close> against
  the element before it; \<^verbatim>\<open>Dir\<close> cleans what stands before the last element.
\<close>

fun ext_rev :: "string \<Rightarrow> string \<Rightarrow> string" where
  "ext_rev [] acc = []"
| "ext_rev (c # cs) acc =
     (if c = CHR ''/'' then []
      else if c = CHR ''.'' then c # acc
      else ext_rev cs (c # acc))"

definition filepath_Ext :: "path \<Rightarrow> string" where
  "filepath_Ext p = ext_rev (rev p) []"

definition filepath_Base :: "path \<Rightarrow> string" where
  "filepath_Base p =
     (if p = [] then ''.''
      else (let q = rev (dropWhile (\<lambda>c. c = CHR ''/'') (rev p));
                b = rev (takeWhile (\<lambda>c. c \<noteq> CHR ''/'') (rev q))
            in if b = [] then ''/'' else b))"

text \<open>The elements of a path between its separators, empty ones included.\<close>

fun path_elems :: "string \<Rightarrow> string list" where
  "path_elems [] = [[]]"
| "path_elems (c # cs) =
     (if c = CHR ''/'' then [] # path_elems cs
      else (case path_elems cs of [] \<Rightarrow> [[c]] | e # es \<Rightarrow> (c # e) # es))"

text \<open>
  One element of \<^verbatim>\<open>Clean\<close> against the elements kept so far (the last one first): \<^verbatim>\<open>.\<close>
  is dropped, \<^verbatim>\<open>..\<close> removes the element before it, is dropped at the root, and is
  kept at the start of a relative path.
\<close>

definition clean_elem :: "bool \<Rightarrow> string \<Rightarrow> string list \<Rightarrow> string list" where
  "clean_elem rooted e st =
     (if e = ''.'' then st
      else if e = ''..'' then
        (case st of
           [] \<Rightarrow> if rooted then [] else [e]
         | prev # rest \<Rightarrow> if prev = ''..'' then e # st else rest)
      else e # st)"

fun join_elems :: "string list \<Rightarrow> string" where
  "join_elems [] = []"
| "join_elems [e] = e"
| "join_elems (e # es) = e @ ''/'' @ join_elems es"

definition filepath_Clean :: "path \<Rightarrow> path" where
  "filepath_Clean p =
     (let rooted = (p \<noteq> [] \<and> hd p = CHR ''/'');
          st = fold (clean_elem rooted) (filter (\<lambda>e. e \<noteq> []) (path_elems p)) [];
          body = join_elems (rev st)
      in if rooted then CHR ''/'' # body
         else if body = [] then ''.'' else body)"

definition filepath_Dir :: "path \<Rightarrow> path" where
  "filepath_Dir p = filepath_Clean (rev (dropWhile (\<lambda>c. c \<noteq> CHR ''/'') (rev p)))"

text \<open>Decimal rendering: \<^verbatim>\<open>%03d\<close> of \<^verbatim>\<open>fmt.Sprintf\<close> and the padded fields of \<^verbatim>\<open>Time.Format\<close>.\<close>

definition digit_char :: "nat \<Rightarrow> char" where
  "digit_char d = char_of (48 + d)"

fun digits :: "nat \<Rightarrow> string" where
  "digits n = (if n < 10 then [digit_char n] else digits (n div 10) @ [digit_char (n mod 10)])"

declare digits.simps [simp del]

definition zpad :: "nat \<Rightarrow> string \<Rightarrow> string" where
  "zpad k s = replicate (k - length s) (CHR ''0'') @ s"

definition appendInt :: "int \<Rightarrow> nat \<Rightarrow> string" where
  "appendInt x width =
     (if x < 0 then ''-'' @ zpad width (digits (nat (- x))) else zpad width (digits (nat x)))"

text \<open>
  \<^verbatim>\<open>strconv.ParseInt(s, 8, 64)\<close>: an optional sign, then octal digits; \<open>None\<close> is the
  syntax or range error.
\<close>

definition octal_value :: "char \<Rightarrow> int option" where
  "octal_value c = (if c \<in> set ''01234567'' then Some (int (of_char c) - 48) else None)"

fun octal_digits :: "string \<Rightarrow> int \<Rightarrow> int option" where
  "octal_digits [] acc = Some acc"
| "octal_digits (c # cs) acc =
     (case octal_value c of None \<Rightarrow> None | Some d \<Rightarrow> octal_digits cs (acc * 8 + d))"

definition ParseInt8 :: "string \<Rightarrow> int option" where
  "ParseInt8 s =
     (let neg = (s \<noteq> [] \<and> hd s = CHR ''-'');
          ds = (if s \<noteq> [] \<and> (hd s = CHR ''-'' \<or> hd s = CHR ''+'') then tl s else s)
      in if ds = [] then None
         else (case octal_digits ds 0 of
                 None \<Rightarrow> None
               | Some v \<Rightarrow>
                   (let r = (if neg then - v else v)
                    in if - (2 ^ 63) \<le> r \<and> r < 2 ^ 63 then Some r else None)))"

text \<open>\<^verbatim>\<open>os.FileMode(perm)\<close> converts to an unsigned 32-bit value.\<close>

definition FileMode :: "int \<Rightarrow> int" where
  "FileMode perm = perm mod 2 ^ 32"

subsection \<open>Time\<close>

text \<open>
  A \<^verbatim>\<open>time.Time\<close> as the observations the writer makes of it: the instant in
  nanoseconds (for \<^verbatim>\<open>Add\<close> and \<^verbatim>\<open>Before\<close>) and the civil fields of \<^verbatim>\<open>Date\<close>, \<^verbatim>\<open>Clock\<close>
  and \<^verbatim>\<open>Nanosecond\<close>.
\<close>

record gotime =
  t_UnixNano :: int
  t_Year :: int
  t_Month :: int
  t_Day :: int
  t_Hour :: int
  t_Minute :: int
  t_Second :: int
  t_Nanosecond :: int

text \<open>\<^verbatim>\<open>Time.Format\<close> for the two layouts \<^verbatim>\<open>doRotate\<close> uses.\<close>

definition time_Format :: "gotime \<Rightarrow> string \<Rightarrow> string" where
  "time_Format t layout =
     appendInt (t_Year t) 4 @ ''-'' @ appendInt (t_Month t) 2 @ ''-'' @ appendInt (t_Day t) 2 @
     (if layout = ''2006-01-02-15'' then ''-'' @ appendInt (t_Hour t) 2 else [])"

definition y1 :: string where "y1 = ''0123456789''"
definition y2 :: string where
  "y2 = ''0123456789012345678901234567890123456789012345678901234567890123456789012345678901234567890123456789''"
definition y3 :: string where
  "y3 = ''0000000000111111111122222222223333333333444444444455555555556666666666777777777788888888889999999999''"
definition y4 :: string where
  "y4 = ''0123456789012345678901234567890123456789012345678901234567890123456789012345678901234567890123456789''"
definition mo1 :: string where "mo1 = ''000000000111''"
definition mo2 :: string where "mo2 = ''123456789012''"
definition d1 :: string where "d1 = ''0000000001111111111222222222233''"
definition d2 :: string where "d2 = ''1234567890123456789012345678901''"
definition h1 :: string where "h1 = ''000000000011111111112222''"
definition h2 :: string where "h2 = ''012345678901234567890123''"
definition mi1 :: string where
  "mi1 = ''000000000011111111112222222222333333333344444444445555555555''"
definition mi2 :: string where
  "mi2 = ''012345678901234567890123456789012345678901234567890123456789''"
definition s1 :: string where
  "s1 = ''000000000011111111112222222222333333333344444444445555555555''"
definition s2 :: string where
  "s2 = ''012345678901234567890123456789012345678901234567890123456789''"
definition ns1 :: string where "ns1 = ''0123456789''"

text \<open>
  \<^verbatim>\<open>formatTimeHeader\<close>: the 24-byte header, the day of the month and the hour. Each
  table lookup may panic; \<open>None\<close> is that panic.
\<close>

definition formatTimeHeader :: "gotime \<Rightarrow> (string \<times> int \<times> int) option" where
  "formatTimeHeader when =
     (let y = t_Year when; mo = t_Month when; d = t_Day when;
          h = t_Hour when; mi = t_Minute when; s = t_Second when;
          ns = go_div (t_Nanosecond when) 1000000
      in map_option (\<lambda>buf. (buf, d, h))
           (those
             [at_index y1 (go_mod (go_div y 1000) 10),
              at_index y2 (go_div y 100),
              at_index y3 (y - go_div y 100 * 100),
              at_index y4 (y - go_div y 100 * 100),
              Some (CHR ''/''),
              at_index mo1 (mo - 1),
              at_index mo2 (mo - 1),
              Some (CHR ''/''),
              at_index d1 (d - 1),
              at_index d2 (d - 1),
              Some (CHR '' ''),
              at_index h1 h,
              at_index h2 h,
              Some (CHR '':''),
              at_index mi1 mi,
              at_index mi2 mi,
              Some (CHR '':''),
              at_index s1 s,
              at_index s2 s,
              Some (CHR ''.''),
              at_index ns1 (go_div ns 100),
              at_index ns1 (go_div (go_mod ns 100) 10),
              at_index ns1 (go_mod ns 10),
              Some (CHR '' '')]))"


section \<open>The operating system as the writer sees it\<close>

datatype errno = ENOENT | EACCES | EEXIST | EISDIR | EROFS | EIO | ENOSPC

datatype syscall =
    SysOpenFile path
  | SysOpen path
  | SysLstat path
  | SysRename path path
  | SysChmod path
  | SysRemove path
  | SysFstat nat
  | SysWrite nat
  | SysRead path

text \<open>Go \<^verbatim>\<open>error\<close> values; \<open>Errorf p e\<close> is \<^verbatim>\<open>fmt.Errorf(p + "%v", e)\<close>.\<close>

datatype error =
    PathError string path errno
  | LinkError path path errno
  | ErrClosed
  | ErrInvalid
  | NumError string
  | ErrorsNew string
  | Errorf string error

text \<open>The diagnostic lines written to \<^verbatim>\<open>os.Stderr\<close>, one constructor per \<^verbatim>\<open>Fprintf\<close>.\<close>

datatype log_line =
    LogUseExist
  | LogCreateNew
  | LogWriteMsgRotate int int
  | LogWriteMsgErr error
  | LogDoRotate
  | LogFileExist path
  | LogSkipRotate path
  | LogRenameFailed path path error
  | LogRenameOk path path
  | LogUseFileName path
  | LogRenameLog path path

record inode =
  i_data :: string
  i_mtime :: gotime
  i_mode :: int
  i_isdir :: bool

text \<open>
  The file system is the flat list of its entries (path, inode number) and the inodes;
  an entry is named by its clean path, and a lookup takes the first entry of a path. \<open>faults\<close> injects the failures
  that do not follow from this state (permissions, a read-only or full disk), \<open>now\<close>
  is the wall clock, \<open>stderr\<close> the diagnostic output in order, and \<open>spawned\<close> counts the
  goroutines started for the retention sweep. A rename moves the one entry it names.
\<close>

record os_state =
  dirents :: "(path \<times> nat) list"
  inodes :: "nat \<Rightarrow> inode"
  next_ino :: nat
  now :: gotime
  faults :: "syscall \<Rightarrow> errno option"
  stderr :: "log_line list"
  spawned :: nat

text \<open>An \<^verbatim>\<open>*os.File\<close> is \<open>None\<close> (nil) or an open file description.\<close>

record osfile =
  f_ino :: nat
  f_closed :: bool

definition log_stderr :: "log_line \<Rightarrow> os_state \<Rightarrow> os_state" where
  "log_stderr l os = os\<lparr>stderr := stderr os @ [l]\<rparr>"

definition os_Lstat :: "path \<Rightarrow> os_state \<Rightarrow> error + inode" where
  "os_Lstat p os =
     (case faults os (SysLstat p) of
        Some e \<Rightarrow> Inl (PathError ''lstat'' p e)
      | None \<Rightarrow>
          (case map_of (dirents os) p of
             None \<Rightarrow> Inl (PathError ''lstat'' p ENOENT)
           | Some i \<Rightarrow> Inr (inodes os i)))"

definition os_Rename :: "path \<Rightarrow> path \<Rightarrow> os_state \<Rightarrow> error option \<times> os_state" where
  "os_Rename old new os =
     (case faults os (SysRename old new) of
        Some e \<Rightarrow> (Some (LinkError old new e), os)
      | None \<Rightarrow>
          (case map_of (dirents os) new of
             Some j \<Rightarrow>
               if i_isdir (inodes os j) then (Some (LinkError old new EEXIST), os)
               else (case map_of (dirents os) old of
                       None \<Rightarrow> (Some (LinkError old new ENOENT), os)
                     | Some i \<Rightarrow>
                         (None, os\<lparr>dirents := AList.update new i (AList.delete old (dirents os))\<rparr>))
           | None \<Rightarrow>
               (case map_of (dirents os) old of
                  None \<Rightarrow> (Some (LinkError old new ENOENT), os)
                | Some i \<Rightarrow>
                    (None, os\<lparr>dirents := AList.update new i (AList.delete old (dirents os))\<rparr>))))"

definition os_Chmod :: "path \<Rightarrow> int \<Rightarrow> os_state \<Rightarrow> error option \<times> os_state" where
  "os_Chmod p mode os =
     (case faults os (SysChmod p) of
        Some e \<Rightarrow> (Some (PathError ''chmod'' p e), os)
      | None \<Rightarrow>
          (case map_of (dirents os) p of
             None \<Rightarrow> (Some (PathError ''chmod'' p ENOENT), os)
           | Some i \<Rightarrow> (None, os\<lparr>inodes := (inodes os)(i := (inodes os i)\<lparr>i_mode := mode\<rparr>)\<rparr>)))"

definition os_Remove :: "path \<Rightarrow> os_state \<Rightarrow> error option \<times> os_state" where
  "os_Remove p os =
     (case faults os (SysRemove p) of
        Some e \<Rightarrow> (Some (PathError ''remove'' p e), os)
      | None \<Rightarrow>
          (case map_of (dirents os) p of
             None \<Rightarrow> (Some (PathError ''remove'' p ENOENT), os)
           | Some i \<Rightarrow> (None, os\<lparr>dirents := AList.delete p (dirents os)\<rparr>)))"

text \<open>\<^verbatim>\<open>os.OpenFile(name, O_WRONLY|O_APPEND|O_CREATE, perm)\<close>.\<close>

definition os_OpenFile :: "path \<Rightarrow> int \<Rightarrow> os_state \<Rightarrow> (error + osfile) \<times> os_state" where
  "os_OpenFile p perm os =
     (case faults os (SysOpenFile p) of
        Some e \<Rightarrow> (Inl (PathError ''open'' p e), os)
      | None \<Rightarrow>
          (case map_of (dirents os) p of
             Some i \<Rightarrow>
               if i_isdir (inodes os i) then (Inl (PathError ''open'' p EISDIR), os)
               else (Inr \<lparr>f_ino = i, f_closed = False\<rparr>, os)
           | None \<Rightarrow>
               (Inr \<lparr>f_ino = next_ino os, f_closed = False\<rparr>,
                os\<lparr>dirents := AList.update p (next_ino os) (dirents os),
                   inodes := (inodes os)(next_ino os :=
                     \<lparr>i_data = [], i_mtime = now os, i_mode = perm, i_isdir = False\<rparr>),
                   next_ino := Suc (next_ino os)\<rparr>)))"

definition f_Close :: "osfile option \<Rightarrow> error option \<times> osfile option" where
  "f_Close fw =
     (case fw of
        None \<Rightarrow> (Some ErrInvalid, None)
      | Some f \<Rightarrow>
          if f_closed f then (Some ErrClosed, Some f)
          else (None, Some (f\<lparr>f_closed := True\<rparr>)))"

definition f_Stat :: "osfile option \<Rightarrow> os_state \<Rightarrow> error + inode" where
  "f_Stat fw os =
     (case fw of
        None \<Rightarrow> Inl ErrInvalid
      | Some f \<Rightarrow>
          if f_closed f then Inl ErrClosed
          else (case faults os (SysFstat (f_ino f)) of
                  Some e \<Rightarrow> Inl (PathError ''stat'' [] e)
                | None \<Rightarrow> Inr (inodes os (f_ino f))))"

text \<open>\<^verbatim>\<open>File.Write\<close> on a file opened for appending: all of the bytes or an error.\<close>

definition f_Write :: "osfile option \<Rightarrow> string \<Rightarrow> os_state \<Rightarrow> error option \<times> os_state" where
  "f_Write fw b os =
     (case fw of
        None \<Rightarrow> (Some ErrInvalid, os)
      | Some f \<Rightarrow>
          if f_closed f then (Some ErrClosed, os)
          else (case faults os (SysWrite (f_ino f)) of
                  Some e \<Rightarrow> (Some (PathError ''write'' [] e), os)
                | None \<Rightarrow>
                    (None, os\<lparr>inodes := (inodes os)(f_ino f :=
                       (inodes os (f_ino f))\<lparr>i_data := i_data (inodes os (f_ino f)) @ b,
                                              i_mtime := now os\<rparr>)\<rparr>)))"

text \<open>The writer holds a handle it can write to.\<close>

definition handle_valid :: "osfile option \<Rightarrow> bool" where
  "handle_valid fw = (case fw of None \<Rightarrow> False | Some f \<Rightarrow> \<not> f_closed f)"


section \<open>The file writer\<close>

record fileLogWriter =
  Filename :: string
  fileWriter :: "osfile option"
  MaxLines :: int
  maxLinesCurLines :: int
  MaxSize :: int
  maxSizeCurSize :: int
  StripColors :: bool
  Hourly :: bool
  HourlyOpenDate :: int
  Daily :: bool
  MaxDays :: int
  DailyOpenDate :: int
  dailyOpenTime :: gotime
  Rotate :: bool
  Level :: int
  Perm :: string
  RotatePerm :: string
  fileNameOnly :: string
  suffix :: string

definition LevelDebug :: int where
  "LevelDebug = 3"

definition needRotate :: "fileLogWriter \<Rightarrow> int \<Rightarrow> int \<Rightarrow> int \<Rightarrow> bool" where
  "needRotate w sz day hour =
     ((MaxLines w > 0 \<and> maxLinesCurLines w \<ge> MaxLines w) \<or>
      (MaxSize w > 0 \<and> maxSizeCurSize w \<ge> MaxSize w) \<or>
      (Daily w \<and> day \<noteq> DailyOpenDate w) \<or>
      (Hourly w \<and> hour \<noteq> HourlyOpenDate w))"

definition createLogFile :: "fileLogWriter \<Rightarrow> os_state \<Rightarrow> (error + osfile) \<times> os_state" where
  "createLogFile w os =
     (case ParseInt8 (Perm w) of
        None \<Rightarrow> (Inl (NumError (Perm w)), os)
      | Some perm \<Rightarrow>
          (case os_OpenFile (Filename w) (FileMode perm) os of
             (Inl e, os1) \<Rightarrow> (Inl e, os1)
           | (Inr fd, os1) \<Rightarrow> (Inr fd, snd (os_Chmod (Filename w) (FileMode perm) os1))))"

text \<open>\<^verbatim>\<open>bytes.Count(buf[:c], lineSep)\<close> for the one-byte separator \<^verbatim>\<open>'\n'\<close>.\<close>

definition count_newlines :: "string \<Rightarrow> int" where
  "count_newlines b = int (length (filter (\<lambda>c. c = CHR 0x0A) b))"

text \<open>
  The read loop of \<^verbatim>\<open>lines\<close>: each \<^verbatim>\<open>Read\<close> fills at most the 32768 bytes of the
  buffer from the current offset; a read of no bytes is \<^verbatim>\<open>io.EOF\<close> and ends the loop.
\<close>

function read_loop :: "string \<Rightarrow> nat \<Rightarrow> int \<Rightarrow> int" where
  "read_loop dat off count =
     (let c = min 32768 (length dat - off)
      in if c = 0 then count
         else read_loop dat (off + c) (count + count_newlines (take c (drop off dat))))"
  by pat_completeness auto
termination
  by (relation "measure (\<lambda>(dat, off, count). length dat - off)") auto

declare read_loop.simps [simp del]

definition lines :: "fileLogWriter \<Rightarrow> os_state \<Rightarrow> error + int" where
  "lines w os =
     (case faults os (SysOpen (Filename w)) of
        Some e \<Rightarrow> Inl (PathError ''open'' (Filename w) e)
      | None \<Rightarrow>
          (case map_of (dirents os) (Filename w) of
             None \<Rightarrow> Inl (PathError ''open'' (Filename w) ENOENT)
           | Some i \<Rightarrow>
               if i_isdir (inodes os i) then Inl (PathError ''read'' (Filename w) EISDIR)
               else (case faults os (SysRead (Filename w)) of
                       Some e \<Rightarrow> Inl (PathError ''read'' (Filename w) e)
                     | None \<Rightarrow> Inr (read_loop (i_data (inodes os i)) 0 0))))"

definition initFd :: "fileLogWriter \<Rightarrow> os_state \<Rightarrow> error option \<times> fileLogWriter" where
  "initFd w os =
     (case f_Stat (fileWriter w) os of
        Inl e \<Rightarrow> (Some (Errorf ''get stat err: '' e), w)
      | Inr fInfo \<Rightarrow>
          (let w1 = w\<lparr>maxSizeCurSize := int (length (i_data fInfo)),
                       dailyOpenTime := i_mtime fInfo,
                       DailyOpenDate := t_Day (i_mtime fInfo),
                       HourlyOpenDate := t_Hour (i_mtime fInfo),
                       maxLinesCurLines := 0\<rparr>
           in if Rotate w1 \<and> int (length (i_data fInfo)) > 0 \<and> MaxLines w1 > 0
              then (case lines w1 os of
                      Inl e \<Rightarrow> (Some e, w1)
                    | Inr count \<Rightarrow> (None, w1\<lparr>maxLinesCurLines := count\<rparr>))
              else (None, w1)))"

definition startLogger ::
  "fileLogWriter \<Rightarrow> os_state \<Rightarrow> error option \<times> fileLogWriter \<times> os_state" where
  "startLogger w os =
     (case createLogFile w os of
        (Inl e, os1) \<Rightarrow> (Some e, w, os1)
      | (Inr file, os1) \<Rightarrow>
          (case initFd (w\<lparr>fileWriter := Some file\<rparr>) os1 of
             (e, w1) \<Rightarrow> (e, w1, os1)))"

text \<open>
  \<^verbatim>\<open>restartLogger\<close>: the retention sweep is started as a goroutine, so it is counted
  here and runs on its own (\<open>deleteOldLog\<close> below).
\<close>

definition restartLogger ::
  "error option \<Rightarrow> fileLogWriter \<Rightarrow> os_state \<Rightarrow> error option \<times> fileLogWriter \<times> os_state" where
  "restartLogger err w os =
     (case startLogger w os of
        (startLoggerErr, w1, os1) \<Rightarrow>
          (let os2 = os1\<lparr>spawned := Suc (spawned os1)\<rparr>
           in case startLoggerErr of
                Some e \<Rightarrow> (Some (Errorf ''rotate: restartLogger startLoggerErr: '' e), w1, os2)
              | None \<Rightarrow>
                  (case err of
                     Some e \<Rightarrow> (Some (Errorf ''rotate: restartLogger err: '' e), w1, os2)
                   | None \<Rightarrow> (None, w1, os2))))"

definition timeFormat :: "fileLogWriter \<Rightarrow> string" where
  "timeFormat w = (if Hourly w then ''2006-01-02-15'' else ''2006-01-02'')"

definition numName :: "fileLogWriter \<Rightarrow> nat \<Rightarrow> path" where
  "numName w num =
     fileNameOnly w @ ''.'' @ time_Format (dailyOpenTime w) (timeFormat w) @ ''.'' @
     zpad 3 (digits num) @ suffix w"

definition withoutNumName :: "fileLogWriter \<Rightarrow> path" where
  "withoutNumName w =
     fileNameOnly w @ ''.'' @ time_Format (dailyOpenTime w) (timeFormat w) @ suffix w"

definition maxSuffixNum :: nat where
  "maxSuffixNum = 999"

text \<open>
  How the search loop of \<^verbatim>\<open>doRotate\<close> ends: by the \<^verbatim>\<open>return\<close> inside it, or at the loop
  exit with the values of \<^verbatim>\<open>err\<close>, \<^verbatim>\<open>num\<close> and \<^verbatim>\<open>fName\<close>.
\<close>

datatype loop_exit =
    LoopReturn "error option \<times> fileLogWriter \<times> os_state"
  | LoopDone "error option" nat path os_state

function rotate_loop ::
  "fileLogWriter \<Rightarrow> error option \<Rightarrow> nat \<Rightarrow> path \<Rightarrow> os_state \<Rightarrow> loop_exit" where
  "rotate_loop w err num fName os =
     (if err = None \<and> num \<le> maxSuffixNum then
        (case os_Lstat (numName w num) os of
           Inr _ \<Rightarrow>
             rotate_loop w None (Suc num) (numName w num)
               (log_stderr (LogFileExist (numName w num)) os)
         | Inl e \<Rightarrow>
             if num = 1 then
               (case os_Lstat (withoutNumName w) os of
                  Inr _ \<Rightarrow>
                    if MaxLines w = 0 \<and> MaxSize w = 0 then
                      LoopReturn
                        (restartLogger None w (log_stderr (LogSkipRotate (withoutNumName w)) os))
                    else
                      (case os_Rename (withoutNumName w) (numName w num) os of
                         (Some e1, os1) \<Rightarrow>
                           rotate_loop w (Some e1) (Suc num) (numName w num)
                             (log_stderr (LogRenameOk (withoutNumName w) (numName w num))
                               (log_stderr
                                 (LogRenameFailed (withoutNumName w) (numName w num) e1) os1))
                       | (None, os1) \<Rightarrow>
                           rotate_loop w None (Suc num) (numName w num)
                             (log_stderr (LogRenameOk (withoutNumName w) (numName w num)) os1))
                | Inl e2 \<Rightarrow>
                    LoopDone (Some e2) num (withoutNumName w)
                      (log_stderr (LogUseFileName (withoutNumName w)) os))
             else rotate_loop w (Some e) (Suc num) (numName w num) os)
      else LoopDone err num fName os)"
  by pat_completeness auto
termination
  by (relation "measure (\<lambda>(w, err, num, fName, os). Suc maxSuffixNum - num)") auto

declare rotate_loop.simps [simp del]

definition doRotate ::
  "gotime \<Rightarrow> fileLogWriter \<Rightarrow> os_state \<Rightarrow> error option \<times> fileLogWriter \<times> os_state" where
  "doRotate logTime w os =
     (let os0 = log_stderr LogDoRotate os
      in case ParseInt8 (RotatePerm w) of
           None \<Rightarrow> (Some (NumError (RotatePerm w)), w, os0)
         | Some rotatePerm \<Rightarrow>
             (case os_Lstat (Filename w) os0 of
                Inl e \<Rightarrow> restartLogger (Some e) w os0
              | Inr _ \<Rightarrow>
                  (case rotate_loop w None 1 [] os0 of
                     LoopReturn r \<Rightarrow> r
                   | LoopDone err num fName os1 \<Rightarrow>
                       if err = None \<and> num > maxSuffixNum then
                         (Some (ErrorsNew
                            (''rotate: Cannot find free log number to rename '' @ Filename w)),
                          w, os1)
                       else
                         (let w1 = w\<lparr>fileWriter := snd (f_Close (fileWriter w))\<rparr>;
                              os2 = log_stderr (LogRenameLog (Filename w) fName) os1
                          in case os_Rename (Filename w) fName os2 of
                               (Some e, os3) \<Rightarrow> restartLogger (Some e) w1 os3
                             | (None, os3) \<Rightarrow>
                                 (case os_Chmod fName (FileMode rotatePerm) os3 of
                                    (e, os4) \<Rightarrow> restartLogger e w1 os4)))))"

text \<open>The rotation block of \<^verbatim>\<open>WriteMsg\<close> (the double-checked \<^verbatim>\<open>needRotate\<close>), run by one caller.\<close>

definition rotateIfNeeded ::
  "gotime \<Rightarrow> string \<Rightarrow> int \<Rightarrow> int \<Rightarrow> fileLogWriter \<Rightarrow> os_state \<Rightarrow> fileLogWriter \<times> os_state" where
  "rotateIfNeeded when msg d h w os =
     (if Rotate w then
        (if needRotate w (int (length msg)) d h then
           (let os1 = log_stderr (LogWriteMsgRotate d h) os
            in if needRotate w (int (length msg)) d h then
                 (case doRotate when w os1 of
                    (Some e, w1, os2) \<Rightarrow> (w1, log_stderr (LogWriteMsgErr e) os2)
                  | (None, w1, os2) \<Rightarrow> (w1, os2))
               else (w, os1))
         else (w, os))
      else (w, os))"

text \<open>The append block of \<^verbatim>\<open>WriteMsg\<close>: the write and the two counters.\<close>

definition appendMsg ::
  "string \<Rightarrow> fileLogWriter \<Rightarrow> os_state \<Rightarrow> error option \<times> fileLogWriter \<times> os_state" where
  "appendMsg msg w os =
     (case f_Write (fileWriter w) msg os of
        (None, os1) \<Rightarrow>
          (None,
           w\<lparr>maxLinesCurLines := maxLinesCurLines w + 1,
             maxSizeCurSize := maxSizeCurSize w + int (length msg)\<rparr>,
           os1)
      | (Some e, os1) \<Rightarrow> (Some e, w, os1))"

text \<open>
  \<^verbatim>\<open>WriteMsg\<close>. \<open>Strip\<close> is the replacement of the ANSI pattern by the regular
  expression library, a parameter here. \<open>None\<close> is the panic of \<^verbatim>\<open>formatTimeHeader\<close>.
\<close>

definition WriteMsg ::
  "(string \<Rightarrow> string) \<Rightarrow> gotime \<Rightarrow> string \<Rightarrow> fileLogWriter \<Rightarrow> os_state
     \<Rightarrow> (error option \<times> fileLogWriter \<times> os_state) option" where
  "WriteMsg Strip when msg w os =
     (case formatTimeHeader when of
        None \<Rightarrow> None
      | Some (hdr, d, h) \<Rightarrow>
          (let msg1 = (if StripColors w then Strip msg else msg)
           in case rotateIfNeeded when msg1 d h w os of
                (w1, os1) \<Rightarrow> Some (appendMsg msg1 w1 os1)))"

definition Destroy :: "fileLogWriter \<Rightarrow> fileLogWriter" where
  "Destroy w = w\<lparr>fileWriter := snd (f_Close (fileWriter w))\<rparr>"


text \<open>
  \<^verbatim>\<open>Init\<close>. \<open>Unmarshal\<close> is \<^verbatim>\<open>json.Unmarshal\<close> into the writer, a parameter here.
\<close>

definition Init ::
  "(string \<Rightarrow> fileLogWriter \<Rightarrow> error + fileLogWriter) \<Rightarrow> string \<Rightarrow> fileLogWriter \<Rightarrow> os_state
     \<Rightarrow> error option \<times> fileLogWriter \<times> os_state" where
  "Init Unmarshal jsonConfig w os =
     (case Unmarshal jsonConfig w of
        Inl e \<Rightarrow> (Some e, w, os)
      | Inr w1 \<Rightarrow>
          if length (Filename w1) = 0 then
            (Some (ErrorsNew ''jsonconfig must have filename''), w1, os)
          else
            (let w2 = w1\<lparr>suffix := filepath_Ext (Filename w1)\<rparr>;
                 w3 = w2\<lparr>fileNameOnly := TrimSuffix (Filename w2) (suffix w2)\<rparr>;
                 w4 = (if suffix w3 = [] then w3\<lparr>suffix := ''.log''\<rparr> else w3)
             in startLogger w4 os))"

subsection \<open>The instance registry\<close>

text \<open>
  The package variable \<^verbatim>\<open>instance\<close> is a map from the configuration string to a
  pointer; \<open>None\<close> is the nil map. Writers live in \<open>heap\<close>, at the address the pointer holds.
\<close>

record registry =
  instanceMap :: "(string \<rightharpoonup> nat) option"
  heap :: "nat \<rightharpoonup> fileLogWriter"
  next_addr :: nat

definition zeroTime :: gotime where
  "zeroTime = \<lparr>t_UnixNano = - 62135596800000000000, t_Year = 1, t_Month = 1, t_Day = 1,
               t_Hour = 0, t_Minute = 0, t_Second = 0, t_Nanosecond = 0\<rparr>"

definition defaultWriter :: fileLogWriter where
  "defaultWriter =
     \<lparr>Filename = [], fileWriter = None, MaxLines = 0, maxLinesCurLines = 0, MaxSize = 0,
      maxSizeCurSize = 0, StripColors = True, Hourly = True, HourlyOpenDate = 0, Daily = True,
      MaxDays = 7, DailyOpenDate = 0, dailyOpenTime = zeroTime, Rotate = True,
      Level = LevelDebug, Perm = ''0660'', RotatePerm = ''0440'', fileNameOnly = [],
      suffix = []\<rparr>"

definition newFileWriter ::
  "(string \<Rightarrow> fileLogWriter \<Rightarrow> error + fileLogWriter) \<Rightarrow> string \<Rightarrow> registry \<Rightarrow> os_state
     \<Rightarrow> nat option \<times> registry \<times> os_state" where
  "newFileWriter Unmarshal jsonConfig reg os =
     (let m = (case instanceMap reg of None \<Rightarrow> Map.empty | Some m0 \<Rightarrow> m0);
          reg1 = reg\<lparr>instanceMap := Some m\<rparr>
      in case m jsonConfig of
           Some v \<Rightarrow> (Some v, reg1, log_stderr LogUseExist os)
         | None \<Rightarrow>
             (case Init Unmarshal jsonConfig defaultWriter (log_stderr LogCreateNew os) of
                (Some e, w, os1) \<Rightarrow> (None, reg1, os1)
              | (None, w, os1) \<Rightarrow>
                  (Some (next_addr reg1),
                   reg1\<lparr>instanceMap := Some (m(jsonConfig \<mapsto> next_addr reg1)),
                        heap := (heap reg1)(next_addr reg1 \<mapsto> w),
                        next_addr := Suc (next_addr reg1)\<rparr>,
                   os1)))"

subsection \<open>The retention sweep\<close>

text \<open>
  \<^verbatim>\<open>filepath.Walk(dir, fn)\<close> calls \<open>fn\<close> on the root and on every entry below it, each
  with the result of its own \<^verbatim>\<open>Lstat\<close>; the callback never returns an error, so no
  entry is skipped. \<^verbatim>\<open>time.Now()\<close> is the clock of the state.
\<close>

definition under :: "path \<Rightarrow> path \<Rightarrow> bool" where
  "under dir p =
     (p = dir \<or>
      (if dir = ''.'' then
         p \<noteq> [] \<and> hd p \<noteq> CHR ''/'' \<and> p \<noteq> ''..'' \<and> \<not> HasPrefix p ''../''
       else if dir = ''/'' then HasPrefix p ''/''
       else HasPrefix p (dir @ ''/'')))"

definition walk_paths :: "path \<Rightarrow> os_state \<Rightarrow> path list" where
  "walk_paths dir os = map fst (filter (\<lambda>e. under dir (fst e)) (dirents os))"

text \<open>\<^verbatim>\<open>24 * time.Hour * time.Duration(w.MaxDays)\<close>, a 64-bit count of nanoseconds.\<close>

definition retention :: "fileLogWriter \<Rightarrow> int" where
  "retention w = wrap64 (86400000000000 * MaxDays w)"

definition matchesLog :: "fileLogWriter \<Rightarrow> path \<Rightarrow> bool" where
  "matchesLog w p =
     (HasPrefix (filepath_Base p) (filepath_Base (fileNameOnly w)) \<and>
      HasSuffix (filepath_Base p) (suffix w))"

definition walkFn :: "fileLogWriter \<Rightarrow> path \<Rightarrow> os_state \<Rightarrow> os_state" where
  "walkFn w p os =
     (case os_Lstat p os of
        Inl e \<Rightarrow> os
      | Inr info \<Rightarrow>
          if \<not> i_isdir info \<and> t_UnixNano (i_mtime info) + retention w < t_UnixNano (now os)
          then (if matchesLog w p then snd (os_Remove p os) else os)
          else os)"

definition deleteOldLog :: "fileLogWriter \<Rightarrow> os_state \<Rightarrow> os_state" where
  "deleteOldLog w os = fold (walkFn w) (walk_paths (filepath_Dir (Filename w)) os) os"


section \<open>Observations on runs\<close>

text \<open>The error and the two counters a call leaves.\<close>

definition result_counters ::
  "error option \<times> fileLogWriter \<times> os_state \<Rightarrow> error option \<times> int \<times> int" where
  "result_counters r = (fst r, maxLinesCurLines (fst (snd r)), maxSizeCurSize (fst (snd r)))"

text \<open>
  Every call of \<^verbatim>\<open>doRotate\<close> starts by printing its line on \<^verbatim>\<open>os.Stderr\<close>, and nothing
  else prints that line: the rotation attempts so far are its occurrences.
\<close>

definition rotations :: "os_state \<Rightarrow> nat" where
  "rotations os = length (filter (\<lambda>l. l = LogDoRotate) (stderr os))"

text \<open>A caller writing one message after the other, whatever each call returns.\<close>

fun WriteMsgs ::
  "(string \<Rightarrow> string) \<Rightarrow> (gotime \<times> string) list \<Rightarrow> fileLogWriter \<Rightarrow> os_state
     \<Rightarrow> (fileLogWriter \<times> os_state) option" where
  "WriteMsgs Strip [] w os = Some (w, os)"
| "WriteMsgs Strip (tm # tms) w os =
     (case WriteMsg Strip (fst tm) (snd tm) w os of
        None \<Rightarrow> None
      | Some r \<Rightarrow> WriteMsgs Strip tms (fst (snd r)) (snd (snd r)))"

text \<open>The line count that \<^verbatim>\<open>initFd\<close> seeds for a file with the given content.\<close>

definition recovered_lines :: "fileLogWriter \<Rightarrow> string \<Rightarrow> int" where
  "recovered_lines w dat = (if Rotate w \<and> MaxLines w > 0 then count_newlines dat else 0)"

text \<open>The bytes a list of messages adds, after the optional stripping.\<close>

definition written_bytes :: "(string \<Rightarrow> string) \<Rightarrow> fileLogWriter \<Rightarrow> (gotime \<times> string) list \<Rightarrow> int" where
  "written_bytes Strip w tms =
     (\<Sum>tm\<leftarrow>tms. int (length (if StripColors w then Strip (snd tm) else snd tm)))"

text \<open>The state in which the search loop of \<^verbatim>\<open>doRotate\<close> ends.\<close>

definition exit_os :: "loop_exit \<Rightarrow> os_state" where
  "exit_os x = (case x of LoopReturn r \<Rightarrow> snd (snd r) | LoopDone e n f os \<Rightarrow> os)"

text \<open>Whether a call leaves the writer with a handle it can write to.\<close>

definition result_handle_valid :: "error option \<times> fileLogWriter \<times> os_state \<Rightarrow> bool" where
  "result_handle_valid r = handle_valid (fileWriter (fst (snd r)))"

text \<open>The error a call returns together with the state of the handle it leaves.\<close>

definition result_error_handle ::
  "error option \<times> fileLogWriter \<times> os_state \<Rightarrow> error option \<times> bool" where
  "result_error_handle r = (fst r, result_handle_valid r)"

text \<open>The entries of the file system, each with the content of its file.\<close>

definition file_contents :: "os_state \<Rightarrow> (path \<times> string) list" where
  "file_contents os = map (\<lambda>e. (fst e, i_data (inodes os (snd e)))) (dirents os)"

text \<open>Whether the sweep removes the entry of a path: what the callback tests.\<close>

definition sweepable :: "fileLogWriter \<Rightarrow> os_state \<Rightarrow> path \<Rightarrow> bool" where
  "sweepable w os p =
     (case map_of (dirents os) p of
        None \<Rightarrow> False
      | Some i \<Rightarrow>
          \<not> i_isdir (inodes os i) \<and>
          t_UnixNano (i_mtime (inodes os i)) + retention w < t_UnixNano (now os) \<and>
          matchesLog w p)"

text \<open>The writers that have been allocated, by address.\<close>

definition registry_writers :: "registry \<Rightarrow> fileLogWriter option list" where
  "registry_writers reg = map (heap reg) [0..<next_addr reg]"

text \<open>The bytes a list of messages appends to the file, in order.\<close>

definition written_data ::
  "(string \<Rightarrow> string) \<Rightarrow> fileLogWriter \<Rightarrow> (gotime \<times> string) list \<Rightarrow> string" where
  "written_data Strip w tms =
     concat (map (\<lambda>tm. if StripColors w then Strip (snd tm) else snd tm) tms)"

section \<open>Example states\<close>

text \<open>Concrete times, files and writers at which the theorems below are instantiated.\<close>

definition ex_time :: gotime where
  "ex_time = \<lparr>t_UnixNano = 1705312800000000000, t_Year = 2024, t_Month = 1, t_Day = 15,
              t_Hour = 10, t_Minute = 0, t_Second = 0, t_Nanosecond = 0\<rparr>"

definition ex_empty_inode :: inode where
  "ex_empty_inode = \<lparr>i_data = [], i_mtime = ex_time, i_mode = 432, i_isdir = False\<rparr>"

definition ex_os :: os_state where
  "ex_os = \<lparr>dirents = [(''app.log'', 0)], inodes = (\<lambda>i. ex_empty_inode), next_ino = 1,
            now = ex_time, faults = (\<lambda>c. None), stderr = [], spawned = 0\<rparr>"

definition ex_writer :: fileLogWriter where
  "ex_writer =
     \<lparr>Filename = ''app.log'', fileWriter = Some \<lparr>f_ino = 0, f_closed = False\<rparr>,
      MaxLines = 3, maxLinesCurLines = 0, MaxSize = 0, maxSizeCurSize = 0, StripColors = False,
      Hourly = False, HourlyOpenDate = 10, Daily = True, MaxDays = 7, DailyOpenDate = 15,
      dailyOpenTime = ex_time, Rotate = True, Level = LevelDebug, Perm = ''0660'',
      RotatePerm = ''0440'', fileNameOnly = ''app'', suffix = ''.log''\<rparr>"

definition ex_three_lines :: string where
  "ex_three_lines = ''aaa\<newline>bbb\<newline>ccc\<newline>''"

definition ex_full_os :: os_state where
  "ex_full_os =
     ex_os\<lparr>inodes := (inodes ex_os)(0 := ex_empty_inode\<lparr>i_data := ex_three_lines\<rparr>)\<rparr>"

definition ex_full_writer :: fileLogWriter where
  "ex_full_writer = ex_writer\<lparr>maxLinesCurLines := 3, maxSizeCurSize := 12\<rparr>"

text \<open>A stand-in for the JSON decoder: it sets the file name and the line limit.\<close>

definition ex_unmarshal :: "string \<Rightarrow> fileLogWriter \<Rightarrow> error + fileLogWriter" where
  "ex_unmarshal cfg w = Inr (w\<lparr>Filename := ''app.log'', MaxLines := 3\<rparr>)"

text \<open>The next day, and the same day of the next month.\<close>

definition ex_time_next_day :: gotime where
  "ex_time_next_day = ex_time\<lparr>t_UnixNano := 1705399200000000000, t_Day := 16\<rparr>"

definition ex_time_next_month :: gotime where
  "ex_time_next_month = ex_time\<lparr>t_UnixNano := 1707991200000000000, t_Month := 2\<rparr>"

text \<open>A writer that rotates by day only.\<close>

definition ex_daily_writer :: fileLogWriter where
  "ex_daily_writer = ex_writer\<lparr>MaxLines := 0\<rparr>"

text \<open>The directory in which the archive of 15 January is already there.\<close>

definition ex_skip_os :: os_state where
  "ex_skip_os = ex_os\<lparr>dirents := [(''app.log'', 0), (''app.2024-01-15.log'', 2)], next_ino := 3\<rparr>"

text \<open>
  A file system that has become read-only: nothing can be opened for writing, renamed,
  removed, changed in mode or written. And a directory that has lost its write
  permission: its entries can be neither renamed nor removed, its files still opened.
\<close>

definition ex_readonly_fs :: "syscall \<Rightarrow> errno option" where
  "ex_readonly_fs c =
     (case c of
        SysOpenFile p \<Rightarrow> Some EROFS
      | SysRename a b \<Rightarrow> Some EROFS
      | SysChmod p \<Rightarrow> Some EROFS
      | SysRemove p \<Rightarrow> Some EROFS
      | SysWrite i \<Rightarrow> Some EROFS
      | _ \<Rightarrow> None)"

definition ex_readonly_dir :: "syscall \<Rightarrow> errno option" where
  "ex_readonly_dir c =
     (case c of
        SysRename a b \<Rightarrow> Some EACCES
      | SysRemove p \<Rightarrow> Some EACCES
      | _ \<Rightarrow> None)"

text \<open>The directory after a first rotation: one archive without a number, and the active file.\<close>

definition ex_archived_os :: os_state where
  "ex_archived_os = ex_full_os\<lparr>dirents := [(''app.2024-01-15.log'', 0), (''app.log'', 1)]\<rparr>"

text \<open>
  A directory for the sweep, ten days after the active file was last written: an
  archive of fourteen days, one of one day, and a file of another name. Only the
  instant of a modification time is read by the sweep.
\<close>

definition ex_days_ago :: "int \<Rightarrow> gotime" where
  "ex_days_ago n = ex_time\<lparr>t_UnixNano := t_UnixNano ex_time - n * 86400000000000\<rparr>"

definition ex_sweep_os :: os_state where
  "ex_sweep_os =
     ex_os\<lparr>dirents := [(''app.log'', 10), (''app.2024-01-01.log'', 11),
                        (''app.2024-01-14.log'', 12), (''notes.txt'', 13)],
           inodes := (\<lambda>i. ex_empty_inode\<lparr>i_mtime :=
                        ex_days_ago (if i = 10 then 10 else if i = 11 then 14
                                     else if i = 12 then 1 else 30)\<rparr>),
           next_ino := 14\<rparr>"

text \<open>
  The configuration \<^verbatim>\<open>{"filename":"app.log"}\<close>, the same with a space after the colon,
  and a decoder for this one configuration which, as JSON does, skips the spaces
  between the tokens. Then two calls of \<^verbatim>\<open>newFileWriter\<close> on the empty registry, one
  with each string.
\<close>

definition ex_json_app :: string where
  "ex_json_app = [CHR 0x7B, CHR 0x22] @ ''filename'' @ [CHR 0x22, CHR 0x3A, CHR 0x22] @
                 ''app.log'' @ [CHR 0x22, CHR 0x7D]"

definition ex_json_app_spaced :: string where
  "ex_json_app_spaced = [CHR 0x7B, CHR 0x22] @ ''filename'' @ [CHR 0x22, CHR 0x3A] @ '' '' @
                        [CHR 0x22] @ ''app.log'' @ [CHR 0x22, CHR 0x7D]"

definition ex_json_decoder :: "string \<Rightarrow> fileLogWriter \<Rightarrow> error + fileLogWriter" where
  "ex_json_decoder cfg w =
     (if filter (\<lambda>c. c \<noteq> CHR '' '') cfg = ex_json_app
      then Inr (w\<lparr>Filename := ''app.log''\<rparr>)
      else Inl (ErrorsNew ''unexpected configuration''))"

definition ex_registry :: registry where
  "ex_registry = \<lparr>instanceMap = None, heap = Map.empty, next_addr = 0\<rparr>"

definition ex_first_call :: "nat option \<times> registry \<times> os_state" where
  "ex_first_call = newFileWriter ex_json_decoder ex_json_app ex_registry ex_os"

definition ex_second_call :: "nat option \<times> registry \<times> os_state" where
  "ex_second_call =
     newFileWriter ex_json_decoder ex_json_app_spaced
       (fst (snd ex_first_call)) (snd (snd ex_first_call))"




section \<open>Basic facts\<close>

lemma formatTimeHeader_day_hour:
  "formatTimeHeader t = Some (b, d, h) \<Longrightarrow> d = t_Day t \<and> h = t_Hour t"
  by (auto simp: formatTimeHeader_def Let_def)

lemma ex_time_header: "formatTimeHeader ex_time = Some (''2024/01/15 10:00:00.000 '', 15, 10)"
  by code_simp

lemma needRotate_size: "needRotate w sa day hour = needRotate w sb day hour"
  by (simp add: needRotate_def)

lemma rotateIfNeeded_skip:
  "\<not> (Rotate w \<and> needRotate w s d h) \<Longrightarrow> rotateIfNeeded when msg d h w os = (w, os)"
  using needRotate_size[of w s d h "int (length msg)"]
  by (auto simp: rotateIfNeeded_def)

lemma WriteMsg_no_rotation:
  assumes "formatTimeHeader when = Some (hdr, d, h)"
    and "\<not> (Rotate w \<and> needRotate w s d h)"
  shows "WriteMsg Strip when msg w os =
           Some (appendMsg (if StripColors w then Strip msg else msg) w os)"
  using assms by (simp add: WriteMsg_def rotateIfNeeded_skip[of w s d h])

subsection \<open>Paths\<close>

text \<open>\<^verbatim>\<open>filepath.Base\<close> drops trailing separators and \<^verbatim>\<open>filepath.Dir\<close> cleans its result.\<close>

lemma filepath_examples:
  "filepath_Base ''logs/'' = ''logs''"
  "filepath_Base ''logs/app'' = ''app''"
  "filepath_Base ''/'' = ''/''"
  "filepath_Base [] = ''.''"
  "filepath_Dir ''logs/.log'' = ''logs''"
  "filepath_Dir ''a//b.log'' = ''a''"
  "filepath_Dir ''./app.log'' = ''.''"
  "filepath_Dir ''a/../b/c.log'' = ''b''"
  "filepath_Dir ''/app.log'' = ''/''"
  by code_simp+

subsection \<open>Counting lines\<close>

lemma count_newlines_append:
  "count_newlines (a @ b) = count_newlines a + count_newlines b"
  by (simp add: count_newlines_def)

lemma count_newlines_take_drop:
  "count_newlines (take c xs) + count_newlines (drop c xs) = count_newlines xs"
  using count_newlines_append[of "take c xs" "drop c xs"] by simp

lemma read_loop_count: "read_loop dat off c = c + count_newlines (drop off dat)"
proof (induction dat off c rule: read_loop.induct)
  case (1 dat off count)
  let ?c = "min 32768 (length dat - off)"
  show ?case
  proof (cases "?c = 0")
    case True
    then have d: "length dat \<le> off" by auto
    have "min 32768 (length dat - off) = 0"
      using d by simp
    then have "read_loop dat off count = count"
      by (subst read_loop.simps[of dat off count]) (simp add: Let_def)
    then show ?thesis
      using d by (simp add: count_newlines_def)
  next
    case False
    have "read_loop dat off count =
            read_loop dat (off + ?c) (count + count_newlines (take ?c (drop off dat)))"
      by (subst read_loop.simps[of dat off count]) (simp only: Let_def False if_False)
    also have "\<dots> = count + count_newlines (take ?c (drop off dat)) +
                       count_newlines (drop (off + ?c) dat)"
      using "1.IH"[OF refl False] by simp
    also have "drop (off + ?c) dat = drop ?c (drop off dat)"
      by (simp add: add.commute)
    finally show ?thesis
      using count_newlines_take_drop[of ?c "drop off dat"] by simp
  qed
qed

subsection \<open>Opening the file\<close>

lemma createLogFile_frame:
  "faults (snd (createLogFile w os)) = faults os \<and>
   stderr (snd (createLogFile w os)) = stderr os \<and>
   spawned (snd (createLogFile w os)) = spawned os \<and>
   now (snd (createLogFile w os)) = now os"
  by (auto simp: createLogFile_def os_OpenFile_def os_Chmod_def
      split: option.splits if_splits sum.splits prod.splits)

lemma createLogFile_existing:
  assumes "createLogFile w os = (Inr f, os')"
    and "map_of (dirents os) (Filename w) = Some i"
  shows "f = \<lparr>f_ino = i, f_closed = False\<rparr> \<and> dirents os' = dirents os \<and>
         next_ino os' = next_ino os \<and>
         (\<forall>j. i_data (inodes os' j) = i_data (inodes os j) \<and>
              i_mtime (inodes os' j) = i_mtime (inodes os j) \<and>
              i_isdir (inodes os' j) = i_isdir (inodes os j)) \<and>
         \<not> i_isdir (inodes os i)"
  using assms
  by (auto simp: createLogFile_def os_OpenFile_def os_Chmod_def
      split: option.splits if_splits sum.splits prod.splits)

lemma createLogFile_fresh:
  assumes "createLogFile w os = (Inr f, os')"
    and "map_of (dirents os) (Filename w) = None"
  shows "f = \<lparr>f_ino = next_ino os, f_closed = False\<rparr> \<and>
         dirents os' = AList.update (Filename w) (next_ino os) (dirents os) \<and>
         i_data (inodes os' (next_ino os)) = [] \<and>
         i_mtime (inodes os' (next_ino os)) = now os \<and>
         \<not> i_isdir (inodes os' (next_ino os))"
  using assms
  by (auto simp: createLogFile_def os_OpenFile_def os_Chmod_def update_conv'
      split: option.splits if_splits sum.splits prod.splits)

lemma createLogFile_handle:
  assumes "createLogFile w os = (Inr f, os')"
  shows "map_of (dirents os') (Filename w) = Some (f_ino f) \<and> \<not> f_closed f \<and>
         \<not> i_isdir (inodes os' (f_ino f))"
proof (cases "map_of (dirents os) (Filename w)")
  case None
  from createLogFile_fresh[OF assms None] show ?thesis
    by (simp add: update_conv')
next
  case (Some i)
  from createLogFile_existing[OF assms Some] Some show ?thesis
    by simp
qed

lemma initFd_ok:
  assumes "initFd w os = (None, w')"
    and "fileWriter w = Some f" and "map_of (dirents os) (Filename w) = Some (f_ino f)"
  shows "w' = w\<lparr>maxSizeCurSize := int (length (i_data (inodes os (f_ino f)))),
                dailyOpenTime := i_mtime (inodes os (f_ino f)),
                DailyOpenDate := t_Day (i_mtime (inodes os (f_ino f))),
                HourlyOpenDate := t_Hour (i_mtime (inodes os (f_ino f))),
                maxLinesCurLines := recovered_lines w (i_data (inodes os (f_ino f)))\<rparr>"
  using assms
  by (auto simp: initFd_def f_Stat_def Let_def recovered_lines_def lines_def read_loop_count
        count_newlines_def
      split: option.splits if_splits sum.splits)

lemma initFd_no_faults:
  assumes "fileWriter w = Some f" "\<not> f_closed f"
    and "map_of (dirents os) (Filename w) = Some (f_ino f)"
    and "\<not> i_isdir (inodes os (f_ino f))"
    and "faults os (SysFstat (f_ino f)) = None" "faults os (SysOpen (Filename w)) = None"
    and "faults os (SysRead (Filename w)) = None"
  shows "fst (initFd w os) = None"
  using assms
  by (auto simp: initFd_def f_Stat_def Let_def lines_def
      split: option.splits if_splits sum.splits)

lemma startLogger_frame:
  "faults (snd (snd (startLogger w os))) = faults os \<and>
   stderr (snd (snd (startLogger w os))) = stderr os \<and>
   spawned (snd (snd (startLogger w os))) = spawned os \<and>
   now (snd (snd (startLogger w os))) = now os"
  using createLogFile_frame[of w os]
  by (auto simp: startLogger_def split: prod.splits sum.splits)

lemma startLogger_ok:
  assumes "startLogger w os = (None, w', os')"
  shows "\<exists>f. createLogFile w os = (Inr f, os') \<and>
             w' = w\<lparr>fileWriter := Some f,
                     maxSizeCurSize := int (length (i_data (inodes os' (f_ino f)))),
                     dailyOpenTime := i_mtime (inodes os' (f_ino f)),
                     DailyOpenDate := t_Day (i_mtime (inodes os' (f_ino f))),
                     HourlyOpenDate := t_Hour (i_mtime (inodes os' (f_ino f))),
                     maxLinesCurLines := recovered_lines w (i_data (inodes os' (f_ino f)))\<rparr>"
proof -
  obtain r os1 where c: "createLogFile w os = (r, os1)"
    by (cases "createLogFile w os")
  show ?thesis
  proof (cases r)
    case (Inl e)
    with c assms show ?thesis by (simp add: startLogger_def)
  next
    case (Inr f)
    with c assms have i: "initFd (w\<lparr>fileWriter := Some f\<rparr>) os1 = (None, w')" and o: "os' = os1"
      by (auto simp: startLogger_def split: prod.splits)
    from createLogFile_handle[of w os f os1] c Inr
    have m: "map_of (dirents os1) (Filename w) = Some (f_ino f)" by simp
    from initFd_ok[OF i, of f] m
    show ?thesis using c Inr o by (simp add: recovered_lines_def)
  qed
qed

lemma count_newlines_lines:
  "\<forall>l\<in>set ls. CHR 0x0A \<notin> set l \<Longrightarrow>
     count_newlines (concat (map (\<lambda>l. l @ [CHR 0x0A]) ls)) = int (length ls)"
proof (induction ls)
  case Nil
  then show ?case by (simp add: count_newlines_def)
next
  case (Cons l ls)
  then have "filter (\<lambda>c. c = CHR 0x0A) l = []"
    by (auto simp: filter_empty_conv)
  with Cons show ?case
    by (simp add: count_newlines_def)
qed

lemma startLogger_existing_no_faults:
  assumes ex: "map_of (dirents os) (Filename w) = Some i"
    and nd: "\<not> i_isdir (inodes os i)"
    and perm: "ParseInt8 (Perm w) = Some pm"
    and nf: "faults os (SysOpenFile (Filename w)) = None" "faults os (SysFstat i) = None"
      "faults os (SysOpen (Filename w)) = None" "faults os (SysRead (Filename w)) = None"
  shows "\<exists>w' os'. startLogger w os = (None, w', os') \<and>
           w' = w\<lparr>fileWriter := Some \<lparr>f_ino = i, f_closed = False\<rparr>,
                   maxSizeCurSize := int (length (i_data (inodes os i))),
                   dailyOpenTime := i_mtime (inodes os i),
                   DailyOpenDate := t_Day (i_mtime (inodes os i)),
                   HourlyOpenDate := t_Hour (i_mtime (inodes os i)),
                   maxLinesCurLines := recovered_lines w (i_data (inodes os i))\<rparr> \<and>
           dirents os' = dirents os \<and> faults os' = faults os \<and> now os' = now os \<and>
           stderr os' = stderr os \<and>
           (\<forall>j. i_data (inodes os' j) = i_data (inodes os j) \<and>
                i_mtime (inodes os' j) = i_mtime (inodes os j) \<and>
                i_isdir (inodes os' j) = i_isdir (inodes os j))"
proof -
  let ?f = "\<lparr>f_ino = i, f_closed = False\<rparr>"
  obtain os1 where c: "createLogFile w os = (Inr ?f, os1)"
    using ex nd perm nf
    by (auto simp: createLogFile_def os_OpenFile_def split: prod.splits)
  from createLogFile_existing[OF c ex]
  have d: "dirents os1 = dirents os"
    and k: "\<forall>j. i_data (inodes os1 j) = i_data (inodes os j) \<and>
              i_mtime (inodes os1 j) = i_mtime (inodes os j) \<and>
              i_isdir (inodes os1 j) = i_isdir (inodes os j)"
    by simp_all
  have f1: "faults os1 = faults os" "now os1 = now os" "stderr os1 = stderr os"
    using createLogFile_frame[of w os] c by simp_all
  let ?w1 = "w\<lparr>fileWriter := Some ?f\<rparr>"
  have "fst (initFd ?w1 os1) = None"
    by (rule initFd_no_faults[of ?w1 ?f]) (use ex nd d k f1 nf in simp_all)
  then obtain w' where i: "initFd ?w1 os1 = (None, w')"
    by (cases "initFd ?w1 os1") simp
  have s: "startLogger w os = (None, w', os1)"
    using c i by (simp add: startLogger_def)
  from initFd_ok[OF i, of ?f] ex d
  have "w' = ?w1\<lparr>maxSizeCurSize := int (length (i_data (inodes os1 i))),
                dailyOpenTime := i_mtime (inodes os1 i),
                DailyOpenDate := t_Day (i_mtime (inodes os1 i)),
                HourlyOpenDate := t_Hour (i_mtime (inodes os1 i)),
                maxLinesCurLines := recovered_lines ?w1 (i_data (inodes os1 i))\<rparr>"
    by simp
  then show ?thesis
    using s d k f1 by (simp add: recovered_lines_def)
qed

lemma count_newlines_nonneg: "0 \<le> count_newlines b"
  by (simp add: count_newlines_def)


lemma appendMsg_no_fault:
  assumes "fileWriter w = Some f" "\<not> f_closed f" "faults os (SysWrite (f_ino f)) = None"
  shows "appendMsg m w os =
           (None,
            w\<lparr>maxLinesCurLines := maxLinesCurLines w + 1,
              maxSizeCurSize := maxSizeCurSize w + int (length m)\<rparr>,
            os\<lparr>inodes := (inodes os)(f_ino f :=
                   (inodes os (f_ino f))\<lparr>i_data := i_data (inodes os (f_ino f)) @ m,
                                          i_mtime := now os\<rparr>)\<rparr>)"
  using assms by (simp add: appendMsg_def f_Write_def)

subsection \<open>What a rotation leaves untouched\<close>

lemma rotations_log:
  "rotations (log_stderr l os) = rotations os + (if l = LogDoRotate then 1 else 0)"
  by (simp add: rotations_def log_stderr_def)

lemma log_stderr_frame [simp]:
  "faults (log_stderr l os) = faults os" "dirents (log_stderr l os) = dirents os"
  "inodes (log_stderr l os) = inodes os" "now (log_stderr l os) = now os"
  "next_ino (log_stderr l os) = next_ino os" "spawned (log_stderr l os) = spawned os"
  by (simp_all add: log_stderr_def)

lemma os_Rename_frame:
  "stderr (snd (os_Rename a b os)) = stderr os \<and> faults (snd (os_Rename a b os)) = faults os \<and>
   inodes (snd (os_Rename a b os)) = inodes os \<and> now (snd (os_Rename a b os)) = now os"
  by (auto simp: os_Rename_def split: option.splits)

lemma os_Chmod_frame:
  "stderr (snd (os_Chmod a m os)) = stderr os \<and> faults (snd (os_Chmod a m os)) = faults os \<and>
   dirents (snd (os_Chmod a m os)) = dirents os \<and> now (snd (os_Chmod a m os)) = now os"
  by (auto simp: os_Chmod_def split: option.splits)

lemma restartLogger_frame:
  "stderr (snd (snd (restartLogger err w os))) = stderr os \<and>
   faults (snd (snd (restartLogger err w os))) = faults os \<and>
   now (snd (snd (restartLogger err w os))) = now os"
  using startLogger_frame[of w os]
  by (auto simp: restartLogger_def Let_def split: prod.splits option.splits)

lemma rotations_stderr: "stderr a = stderr b \<Longrightarrow> rotations a = rotations b"
  by (simp add: rotations_def)

lemma rotate_loop_frame:
  "rotations (exit_os (rotate_loop w err num fName os)) = rotations os \<and>
   faults (exit_os (rotate_loop w err num fName os)) = faults os"
proof (induction w err num fName os rule: rotate_loop.induct)
  case (1 w err num fName os)
  have rn: "rotations x = rotations os" "faults x = faults os"
    if "os_Rename a b os = (e, x)" for a b e x
    using os_Rename_frame[of a b os] that by (simp_all add: rotations_def)
  have rs: "rotations (snd (snd (restartLogger e w x))) = rotations x"
    "faults (snd (snd (restartLogger e w x))) = faults x" for e x
    using restartLogger_frame[of e w x] by (simp_all add: rotations_def)
  show ?case
    unfolding rotate_loop.simps[of w err num fName os]
    using 1 rn rs
    by (auto simp: exit_os_def rotations_log split: sum.splits prod.splits option.splits)
qed

subsection \<open>Counting rotations\<close>

lemma doRotate_rotations:
  "rotations (snd (snd (doRotate t w os))) = Suc (rotations os) \<and>
   faults (snd (snd (doRotate t w os))) = faults os"
proof -
  let ?os0 = "log_stderr LogDoRotate os"
  have r0: "rotations ?os0 = Suc (rotations os)" "faults ?os0 = faults os"
    by (simp_all add: rotations_log)
  have rs: "rotations (snd (snd (restartLogger e v x))) = rotations x"
    "faults (snd (snd (restartLogger e v x))) = faults x" for e v x
    using restartLogger_frame[of e v x] by (simp_all add: rotations_def)
  have rn: "rotations x = rotations y" "faults x = faults y"
    if "os_Rename a b y = (e, x)" for a b e x y
    using os_Rename_frame[of a b y] that by (simp_all add: rotations_def)
  have rc: "rotations x = rotations y" "faults x = faults y"
    if "os_Chmod a m y = (e, x)" for a m e x y
    using os_Chmod_frame[of a m y] that by (simp_all add: rotations_def)
  have lp: "rotations (exit_os (rotate_loop w None 1 [] ?os0)) = Suc (rotations os)"
    "faults (exit_os (rotate_loop w None 1 [] ?os0)) = faults os"
    using rotate_loop_frame[of w None 1 "[]" ?os0] r0 by simp_all
  show ?thesis
    using r0 rs rn rc lp
    by (auto simp: doRotate_def Let_def exit_os_def rotations_log
        split: option.splits sum.splits loop_exit.splits prod.splits)
qed

lemma appendMsg_frame:
  "stderr (snd (snd (appendMsg m w os))) = stderr os \<and>
   faults (snd (snd (appendMsg m w os))) = faults os"
  by (auto simp: appendMsg_def f_Write_def split: option.splits prod.splits)

lemma rotateIfNeeded_rotations:
  "rotations (snd (rotateIfNeeded t m d h w os)) =
     rotations os + (if Rotate w \<and> needRotate w s d h then 1 else 0) \<and>
   faults (snd (rotateIfNeeded t m d h w os)) = faults os"
proof -
  have n: "needRotate w (int (length m)) d h = needRotate w s d h"
    by (rule needRotate_size)
  have dr: "rotations x = Suc (rotations y)" "faults x = faults y"
    if "doRotate t w y = (e, v, x)" for e v x y
    using doRotate_rotations[of t w y] that by simp_all
  show ?thesis
    using n dr
    by (auto simp: rotateIfNeeded_def Let_def rotations_log split: prod.splits option.splits)
qed

lemma WriteMsg_rotations:
  assumes "formatTimeHeader t = Some (hdr, d, h)"
  shows "\<exists>e w' os'. WriteMsg Strip t msg w os = Some (e, w', os') \<and>
           rotations os' = rotations os + (if Rotate w \<and> needRotate w s d h then 1 else 0) \<and>
           faults os' = faults os"
proof -
  let ?m = "if StripColors w then Strip msg else msg"
  obtain w1 os1 where r: "rotateIfNeeded t ?m d h w os = (w1, os1)"
    by (cases "rotateIfNeeded t ?m d h w os")
  obtain e w' os' where a: "appendMsg ?m w1 os1 = (e, w', os')"
    by (cases "appendMsg ?m w1 os1")
  have "WriteMsg Strip t msg w os = Some (e, w', os')"
    using assms r a by (simp add: WriteMsg_def)
  moreover have "rotations os' = rotations os1" "faults os' = faults os1"
    using appendMsg_frame[of ?m w1 os1] a by (simp_all add: rotations_def)
  moreover have "rotations os1 = rotations os + (if Rotate w \<and> needRotate w s d h then 1 else 0)"
    "faults os1 = faults os"
    using rotateIfNeeded_rotations[of t ?m d h w os s] r by simp_all
  ultimately show ?thesis by simp
qed





lemma startLogger_fresh_no_faults:
  assumes ab: "map_of (dirents os) (Filename w) = None"
    and perm: "ParseInt8 (Perm w) = Some pm"
    and nf: "faults os = (\<lambda>c. None)"
  shows "\<exists>os'. startLogger w os =
           (None,
            w\<lparr>fileWriter := Some \<lparr>f_ino = next_ino os, f_closed = False\<rparr>,
              maxSizeCurSize := 0, dailyOpenTime := now os,
              DailyOpenDate := t_Day (now os), HourlyOpenDate := t_Hour (now os),
              maxLinesCurLines := 0\<rparr>, os') \<and>
           dirents os' = AList.update (Filename w) (next_ino os) (dirents os) \<and>
           faults os' = faults os \<and> now os' = now os \<and> stderr os' = stderr os \<and>
           next_ino os' = Suc (next_ino os) \<and>
           (\<forall>j. i_data (inodes os' j) = (if j = next_ino os then [] else i_data (inodes os j)))"
  using assms
  by (auto simp: startLogger_def createLogFile_def os_OpenFile_def os_Chmod_def update_conv'
        initFd_def f_Stat_def Let_def)

lemma appendMsg_config:
  "Rotate (fst (snd (appendMsg m w os))) = Rotate w \<and>
   Daily (fst (snd (appendMsg m w os))) = Daily w \<and>
   Hourly (fst (snd (appendMsg m w os))) = Hourly w \<and>
   MaxLines (fst (snd (appendMsg m w os))) = MaxLines w \<and>
   MaxSize (fst (snd (appendMsg m w os))) = MaxSize w \<and>
   DailyOpenDate (fst (snd (appendMsg m w os))) = DailyOpenDate w \<and>
   HourlyOpenDate (fst (snd (appendMsg m w os))) = HourlyOpenDate w"
  by (auto simp: appendMsg_def split: option.splits prod.splits)

subsection \<open>The example writer\<close>

lemma ex_full_names:
  "numName ex_full_writer 1 = ''app.2024-01-15.001.log''"
  "numName ex_full_writer (Suc 0) = ''app.2024-01-15.001.log''"
  "withoutNumName ex_full_writer = ''app.2024-01-15.log''"
  by code_simp+

lemma handle_closed_invalid: "\<not> handle_valid (snd (f_Close fw))"
  by (auto simp: handle_valid_def f_Close_def split: option.splits)

subsection \<open>Archive names and renames\<close>

lemma zpad_digits_1_2: "zpad 3 (digits 1) = ''001''" "zpad 3 (digits 2) = ''002''"
  "zpad 3 (digits (Suc 0)) = ''001''" "zpad 3 (digits (Suc (Suc 0))) = ''002''"
  by code_simp+

lemma numName_1_2: "numName w 1 \<noteq> numName w 2" "numName w (Suc 0) \<noteq> numName w 2"
  by (simp_all add: numName_def zpad_digits_1_2)







lemma length_numName:
  "length (numName w k) = length (withoutNumName w) + 1 + length (zpad 3 (digits k))"
  by (simp add: numName_def withoutNumName_def)

lemma withoutNumName_neq: "withoutNumName w \<noteq> numName w k"
  using length_numName[of w k] by auto

lemma Filename_neq:
  assumes "length (Filename w) \<le> length (fileNameOnly w) + length (suffix w)"
  shows "Filename w \<noteq> withoutNumName w" "Filename w \<noteq> numName w k"
proof -
  have "length (Filename w) < length (withoutNumName w)"
    using assms by (simp add: withoutNumName_def)
  then show "Filename w \<noteq> withoutNumName w" "Filename w \<noteq> numName w k"
    using length_numName[of w k] by auto
qed

lemma os_Rename_ok:
  assumes "faults os (SysRename a b) = None" "map_of (dirents os) a = Some i"
    "map_of (dirents os) b = None"
  shows "os_Rename a b os = (None, os\<lparr>dirents := AList.update b i (AList.delete a (dirents os))\<rparr>)"
  using assms by (simp add: os_Rename_def)

lemma map_of_renamed:
  "map_of (AList.update b i (AList.delete a al)) p =
     (if p = b then Some i else if p = a then None else map_of al p)"
  by (simp add: update_conv' delete_conv')

lemma createLogFile_dirents_other:
  "p \<noteq> Filename w \<Longrightarrow> map_of (dirents (snd (createLogFile w os))) p = map_of (dirents os) p"
  by (auto simp: createLogFile_def os_OpenFile_def os_Chmod_def update_conv'
      split: option.splits if_splits sum.splits prod.splits)

lemma restartLogger_dirents_other:
  "p \<noteq> Filename w \<Longrightarrow>
     map_of (dirents (snd (snd (restartLogger e w os)))) p = map_of (dirents os) p"
  using createLogFile_dirents_other[of p w os]
  by (auto simp: restartLogger_def startLogger_def Let_def split: prod.splits sum.splits option.splits)

lemma os_Lstat_free:
  "faults os (SysLstat p) = None \<Longrightarrow> map_of (dirents os) p = None \<Longrightarrow>
     os_Lstat p os = Inl (PathError ''lstat'' p ENOENT)"
  by (simp add: os_Lstat_def)

lemma os_Lstat_present:
  "faults os (SysLstat p) = None \<Longrightarrow> map_of (dirents os) p = Some i \<Longrightarrow>
     os_Lstat p os = Inr (inodes os i)"
  by (simp add: os_Lstat_def)

lemma rotate_loop_first:
  assumes "os_Lstat (numName w 1) os = Inl e" "os_Lstat (withoutNumName w) os = Inl ew"
  shows "rotate_loop w None 1 [] os =
           LoopDone (Some ew) 1 (withoutNumName w)
             (log_stderr (LogUseFileName (withoutNumName w)) os)"
  using assms
  by (subst rotate_loop.simps) (simp add: maxSuffixNum_def)

lemma rotate_loop_collision:
  assumes "os_Lstat (numName w 1) os = Inl e" "os_Lstat (withoutNumName w) os = Inr st"
    and "\<not> (MaxLines w = 0 \<and> MaxSize w = 0)"
    and "os_Rename (withoutNumName w) (numName w 1) os = (None, osr)"
    and "os_Lstat (numName w 2)
           (log_stderr (LogRenameOk (withoutNumName w) (numName w 1)) osr) = Inl en"
  shows "rotate_loop w None 1 [] os =
           LoopDone (Some en) 3 (numName w 2)
             (log_stderr (LogRenameOk (withoutNumName w) (numName w 1)) osr)"
proof -
  let ?osa = "log_stderr (LogRenameOk (withoutNumName w) (numName w 1)) osr"
  have two: "Suc (Suc 0) = 2" by simp
  have a: "rotate_loop w None 1 [] os = rotate_loop w None 2 (numName w 1) ?osa"
    using assms(1-4)
    by (subst rotate_loop.simps[of w None 1 "[]" os]) (auto simp: maxSuffixNum_def two)
  have b: "rotate_loop w None 2 (numName w 1) ?osa = rotate_loop w (Some en) 3 (numName w 2) ?osa"
    using assms(5)
    by (subst rotate_loop.simps[of w None 2 "numName w 1" ?osa])
       (simp add: maxSuffixNum_def eval_nat_numeral)
  have c: "rotate_loop w (Some en) 3 (numName w 2) ?osa = LoopDone (Some en) 3 (numName w 2) ?osa"
    by (subst rotate_loop.simps) simp
  show ?thesis
    by (simp only: a b c)
qed





lemma doRotate_renames:
  assumes perm: "ParseInt8 (RotatePerm w) = Some rp"
    and act: "os_Lstat (Filename w) (log_stderr LogDoRotate os) = Inr st"
    and loop: "rotate_loop w None 1 [] (log_stderr LogDoRotate os) = LoopDone (Some el) num fName osl"
    and rename: "os_Rename (Filename w) fName
                   (log_stderr (LogRenameLog (Filename w) fName) osl) = (None, osn)"
    and p: "p \<noteq> Filename w"
  shows "map_of (dirents (snd (snd (doRotate t w os)))) p = map_of (dirents osn) p"
proof -
  let ?wc = "w\<lparr>fileWriter := snd (f_Close (fileWriter w))\<rparr>"
  obtain ec osc where ch: "os_Chmod fName (FileMode rp) osn = (ec, osc)"
    by (cases "os_Chmod fName (FileMode rp) osn")
  have d: "doRotate t w os = restartLogger ec ?wc osc"
    unfolding doRotate_def Let_def perm act loop
    by (simp add: rename ch)
  have "dirents osc = dirents osn"
    using os_Chmod_frame[of fName "FileMode rp" osn] ch by simp
  then show ?thesis
    using restartLogger_dirents_other[of p ?wc ec osc] p by (simp add: d)
qed

lemma ex_full_name_2: "numName ex_full_writer 2 = ''app.2024-01-15.002.log''"
  by code_simp

text \<open>The first rotation of a period, with nothing in its way.\<close>

lemma os_Chmod_ok:
  assumes "faults os (SysChmod p) = None" "map_of (dirents os) p = Some i"
  shows "os_Chmod p m os = (None, os\<lparr>inodes := (inodes os)(i := (inodes os i)\<lparr>i_mode := m\<rparr>)\<rparr>)"
  using assms by (simp add: os_Chmod_def)

lemma doRotate_first_ok:
  assumes perm: "ParseInt8 (RotatePerm w) = Some rp"
    and permw: "ParseInt8 (Perm w) = Some pm"
    and nf: "faults os = (\<lambda>c. None)"
    and names: "length (Filename w) \<le> length (fileNameOnly w) + length (suffix w)"
    and act: "map_of (dirents os) (Filename w) = Some ia"
    and free: "map_of (dirents os) (numName w 1) = None"
      "map_of (dirents os) (withoutNumName w) = None"
  shows "\<exists>os'. doRotate t w os =
           (None,
            w\<lparr>fileWriter := Some \<lparr>f_ino = next_ino os, f_closed = False\<rparr>,
              maxSizeCurSize := 0, dailyOpenTime := now os,
              DailyOpenDate := t_Day (now os), HourlyOpenDate := t_Hour (now os),
              maxLinesCurLines := 0\<rparr>, os') \<and>
           rotations os' = Suc (rotations os) \<and>
           faults os' = faults os \<and> now os' = now os \<and>
           (\<forall>p. map_of (dirents os') p =
                  (if p = Filename w then Some (next_ino os)
                   else if p = withoutNumName w then Some ia
                   else map_of (dirents os) p)) \<and>
           (\<forall>j. i_data (inodes os' j) = (if j = next_ino os then [] else i_data (inodes os j)))"
proof -
  let ?osd = "log_stderr LogDoRotate os"
  let ?osl = "log_stderr (LogUseFileName (withoutNumName w)) ?osd"
  let ?osr = "log_stderr (LogRenameLog (Filename w) (withoutNumName w)) ?osl"
  let ?dn = "AList.update (withoutNumName w) ia (AList.delete (Filename w) (dirents os))"
  let ?osn = "?osr\<lparr>dirents := ?dn\<rparr>"
  let ?osc = "?osn\<lparr>inodes := (inodes ?osn)(ia := (inodes ?osn ia)\<lparr>i_mode := FileMode rp\<rparr>)\<rparr>"
  let ?wc = "w\<lparr>fileWriter := snd (f_Close (fileWriter w))\<rparr>"
  note fneq = Filename_neq[OF names]
  have st: "os_Lstat (Filename w) ?osd = Inr (inodes ?osd ia)"
    using os_Lstat_present[of ?osd "Filename w" ia] nf act by simp
  have l1: "os_Lstat (numName w 1) ?osd = Inl (PathError ''lstat'' (numName w 1) ENOENT)"
    using os_Lstat_free[of ?osd "numName w 1"] nf free by simp
  have lw: "os_Lstat (withoutNumName w) ?osd =
              Inl (PathError ''lstat'' (withoutNumName w) ENOENT)"
    using os_Lstat_free[of ?osd "withoutNumName w"] nf free by simp
  note loop = rotate_loop_first[OF l1 lw]
  have rn: "os_Rename (Filename w) (withoutNumName w) ?osr = (None, ?osn)"
    using os_Rename_ok[of ?osr "Filename w" "withoutNumName w" ia] nf act free by simp
  have mn: "map_of ?dn (withoutNumName w) = Some ia" "map_of ?dn (Filename w) = None"
    using fneq(1) by (simp_all add: map_of_renamed)
  have ch: "os_Chmod (withoutNumName w) (FileMode rp) ?osn = (None, ?osc)"
    using os_Chmod_ok[of ?osn "withoutNumName w" ia "FileMode rp"] nf mn by simp
  have d: "doRotate t w os = restartLogger None ?wc ?osc"
    unfolding doRotate_def Let_def perm st loop
    by (simp add: rn ch maxSuffixNum_def)
  from startLogger_fresh_no_faults[of ?osc ?wc pm] mn permw nf
  obtain os' where s: "startLogger ?wc ?osc =
           (None,
            ?wc\<lparr>fileWriter := Some \<lparr>f_ino = next_ino ?osc, f_closed = False\<rparr>,
              maxSizeCurSize := 0, dailyOpenTime := now ?osc,
              DailyOpenDate := t_Day (now ?osc), HourlyOpenDate := t_Hour (now ?osc),
              maxLinesCurLines := 0\<rparr>, os')"
    and p: "dirents os' = AList.update (Filename ?wc) (next_ino ?osc) (dirents ?osc)"
      "faults os' = faults ?osc" "now os' = now ?osc" "stderr os' = stderr ?osc"
      "\<forall>j. i_data (inodes os' j) = (if j = next_ino ?osc then [] else i_data (inodes ?osc j))"
    by auto
  let ?res = "os'\<lparr>spawned := Suc (spawned os')\<rparr>"
  have r: "doRotate t w os =
             (None,
              w\<lparr>fileWriter := Some \<lparr>f_ino = next_ino os, f_closed = False\<rparr>,
                maxSizeCurSize := 0, dailyOpenTime := now os,
                DailyOpenDate := t_Day (now os), HourlyOpenDate := t_Hour (now os),
                maxLinesCurLines := 0\<rparr>, ?res)"
    unfolding d restartLogger_def s by (simp add: Let_def)
  have rot: "rotations ?res = Suc (rotations os)"
    using p(4) by (simp add: rotations_def log_stderr_def)
  have dm: "map_of (dirents ?res) q =
                  (if q = Filename w then Some (next_ino os)
                   else if q = withoutNumName w then Some ia
                   else map_of (dirents os) q)" for q
    using p(1) by (simp add: update_conv' delete_conv')
  have dt: "i_data (inodes ?res j) = (if j = next_ino os then [] else i_data (inodes os j))" for j
    using p(5) by simp
  show ?thesis
    using r rot dm dt p(2,3) by (intro exI[of _ ?res]) simp
qed

lemma WriteMsg_first_rotation:
  assumes hd: "formatTimeHeader t = Some (hdr, d, h)"
    and need: "Rotate w" "needRotate w 0 d h"
    and perm: "ParseInt8 (RotatePerm w) = Some rp"
    and permw: "ParseInt8 (Perm w) = Some pm"
    and nf: "faults os = (\<lambda>c. None)"
    and names: "length (Filename w) \<le> length (fileNameOnly w) + length (suffix w)"
    and act: "map_of (dirents os) (Filename w) = Some ia"
    and free: "map_of (dirents os) (numName w 1) = None"
      "map_of (dirents os) (withoutNumName w) = None"
    and sm: "smsg = (if StripColors w then Strip msg else msg)"
  shows "\<exists>w' os'. WriteMsg Strip t msg w os = Some (None, w', os') \<and>
           rotations os' = Suc (rotations os) \<and>
           maxLinesCurLines w' = 1 \<and> maxSizeCurSize w' = int (length smsg) \<and>
           fileWriter w' = Some \<lparr>f_ino = next_ino os, f_closed = False\<rparr> \<and>
           (\<forall>p. map_of (dirents os') p =
                  (if p = Filename w then Some (next_ino os)
                   else if p = withoutNumName w then Some ia
                   else map_of (dirents os) p)) \<and>
           (\<forall>j. i_data (inodes os' j) = (if j = next_ino os then smsg else i_data (inodes os j)))"
proof -
  let ?osw = "log_stderr (LogWriteMsgRotate d h) os"
  let ?w2 = "w\<lparr>fileWriter := Some \<lparr>f_ino = next_ino os, f_closed = False\<rparr>,
              maxSizeCurSize := 0, dailyOpenTime := now os,
              DailyOpenDate := t_Day (now os), HourlyOpenDate := t_Hour (now os),
              maxLinesCurLines := 0\<rparr>"
  have nd: "needRotate w (int (length smsg)) d h"
    using need(2) needRotate_size[of w 0 d h "int (length smsg)"] by simp
  from doRotate_first_ok[of w rp pm ?osw ia t] perm permw nf names act free
  obtain osx where dr: "doRotate t w ?osw = (None, ?w2, osx)"
    and px: "rotations osx = Suc (rotations ?osw)" "faults osx = faults ?osw"
      "now osx = now ?osw"
      "\<forall>p. map_of (dirents osx) p =
                  (if p = Filename w then Some (next_ino os)
                   else if p = withoutNumName w then Some ia
                   else map_of (dirents os) p)"
      "\<forall>j. i_data (inodes osx j) = (if j = next_ino os then [] else i_data (inodes os j))"
    by auto
  have ri: "rotateIfNeeded t smsg d h w os = (?w2, osx)"
    using need(1) nd dr by (simp add: rotateIfNeeded_def Let_def)
  let ?os' = "osx\<lparr>inodes := (inodes osx)(next_ino os :=
                   (inodes osx (next_ino os))\<lparr>i_data := i_data (inodes osx (next_ino os)) @ smsg,
                                          i_mtime := now osx\<rparr>)\<rparr>"
  let ?w' = "?w2\<lparr>maxLinesCurLines := maxLinesCurLines ?w2 + 1,
               maxSizeCurSize := maxSizeCurSize ?w2 + int (length smsg)\<rparr>"
  have ap: "appendMsg smsg ?w2 osx = (None, ?w', ?os')"
    using appendMsg_no_fault[of ?w2 "\<lparr>f_ino = next_ino os, f_closed = False\<rparr>" osx smsg]
      px(2) nf by simp
  have wm: "WriteMsg Strip t msg w os = Some (None, ?w', ?os')"
    using hd sm ri ap by (simp add: WriteMsg_def Let_def)
  have rot: "rotations ?os' = Suc (rotations os)"
    using px(1) by (simp add: rotations_def log_stderr_def)
  show ?thesis
    using wm rot px(4,5) by (intro exI[of _ ?w'] exI[of _ ?os']) simp
qed



lemma names_counters:
  "numName (w\<lparr>maxLinesCurLines := a, maxSizeCurSize := b\<rparr>) k = numName w k"
  "withoutNumName (w\<lparr>maxLinesCurLines := a, maxSizeCurSize := b\<rparr>) = withoutNumName w"
  by (simp_all add: numName_def withoutNumName_def timeFormat_def)

lemma ex_names:
  "numName ex_writer 1 = ''app.2024-01-15.001.log''"
  "withoutNumName ex_writer = ''app.2024-01-15.log''"
  "numName ex_daily_writer 1 = ''app.2024-01-15.001.log''"
  "withoutNumName ex_daily_writer = ''app.2024-01-15.log''"
  "numName ex_writer 2 = ''app.2024-01-15.002.log''"
  by code_simp+

subsection \<open>The sweep\<close>

lemma retention_in_range:
  assumes "- 106751 \<le> MaxDays w" "MaxDays w \<le> 106751"
  shows "retention w = 86400000000000 * MaxDays w"
proof -
  have "- (2 ^ 63) \<le> 86400000000000 * MaxDays w" "86400000000000 * MaxDays w < 2 ^ 63"
    using assms by simp_all
  then show ?thesis
    by (simp add: retention_def wrap64_def)
qed

lemma walkFn_step:
  assumes "faults os = (\<lambda>c. None)"
  shows "walkFn w x os = (if sweepable w os x then os\<lparr>dirents := AList.delete x (dirents os)\<rparr> else os)"
  using assms
  by (auto simp: walkFn_def os_Lstat_def os_Remove_def sweepable_def split: option.splits)

lemma fold_walkFn:
  assumes "faults os = (\<lambda>c. None)"
  shows "inodes (fold (walkFn w) ps os) = inodes os \<and>
         now (fold (walkFn w) ps os) = now os \<and>
         faults (fold (walkFn w) ps os) = faults os \<and>
         stderr (fold (walkFn w) ps os) = stderr os \<and>
         (\<forall>p. map_of (dirents (fold (walkFn w) ps os)) p =
                (if p \<in> set ps \<and> sweepable w os p then None else map_of (dirents os) p))"
  using assms
proof (induction ps arbitrary: os)
  case Nil
  then show ?case by simp
next
  case (Cons x xs)
  let ?os1 = "walkFn w x os"
  have s: "?os1 = (if sweepable w os x then os\<lparr>dirents := AList.delete x (dirents os)\<rparr> else os)"
    by (rule walkFn_step[OF Cons.prems])
  have f: "faults ?os1 = (\<lambda>c. None)" "inodes ?os1 = inodes os" "now ?os1 = now os"
    "stderr ?os1 = stderr os"
    using Cons.prems by (simp_all add: s)
  have m: "map_of (dirents ?os1) p = (if p = x \<and> sweepable w os x then None else map_of (dirents os) p)"
    for p
    by (simp add: s delete_conv')
  have sw: "sweepable w ?os1 p = (sweepable w os p \<and> \<not> (p = x \<and> sweepable w os x))" for p
    by (auto simp: sweepable_def m f split: option.splits)
  from Cons.IH[OF f(1)]
  have ih: "inodes (fold (walkFn w) xs ?os1) = inodes ?os1"
    "now (fold (walkFn w) xs ?os1) = now ?os1"
    "faults (fold (walkFn w) xs ?os1) = faults ?os1"
    "stderr (fold (walkFn w) xs ?os1) = stderr ?os1"
    "\<And>p. map_of (dirents (fold (walkFn w) xs ?os1)) p =
                (if p \<in> set xs \<and> sweepable w ?os1 p then None else map_of (dirents ?os1) p)"
    by simp_all
  show ?case
    using ih f Cons.prems by (auto simp: m sw)
qed

lemma set_walk_paths:
  "p \<in> set (walk_paths dir os) \<longleftrightarrow> under dir p \<and> p \<in> fst ` set (dirents os)"
  by (auto simp: walk_paths_def)

lemma sweepable_present: "sweepable w os p \<Longrightarrow> p \<in> fst ` set (dirents os)"
  by (auto simp: sweepable_def split: option.splits dest: map_of_SomeD intro: rev_image_eqI)

lemma ex_sweep_facts:
  "filepath_Dir (Filename ex_writer) = ''.''"
  "filepath_Base (fileNameOnly ex_writer) = ''app''"
  "suffix ex_writer = ''.log''"
  "filepath_Base ''app.2024-01-01.log'' = ''app.2024-01-01.log''"
  "filepath_Base ''app.2024-01-14.log'' = ''app.2024-01-14.log''"
  "filepath_Base ''notes.txt'' = ''notes.txt''"
  by code_simp+

section \<open>The handle after a failed rename\<close>

text \<open>
  C1, as stated, promises a valid handle after every rotation whose rename fails. On
  a file system that has become read-only the rename fails and so does the reopen:
  \<^verbatim>\<open>doRotate\<close> has closed the handle before the rename, \<^verbatim>\<open>startLogger\<close> returns
  before it sets a new one, and the error that comes back is the one of the reopen,
  not the one of the rename. \<^verbatim>\<open>WriteMsg\<close> then returns with the handle closed.
\<close>

theorem doRotate_handle_counterexample:
  "result_error_handle
     (doRotate ex_time ex_full_writer (ex_full_os\<lparr>faults := ex_readonly_fs\<rparr>)) =
     (Some (Errorf ''rotate: restartLogger startLoggerErr: ''
              (PathError ''open'' ''app.log'' EROFS)), False) \<and>
   map_option result_handle_valid
     (WriteMsg id ex_time ''hello'' ex_full_writer (ex_full_os\<lparr>faults := ex_readonly_fs\<rparr>)) =
     Some False"
  by code_simp

text \<open>
  C1, amended. When a name is chosen and the rename of the active path fails with
  \<open>e\<close>, \<^verbatim>\<open>doRotate\<close> is \<^verbatim>\<open>restartLogger\<close> on the writer with its handle closed, which
  runs \<^verbatim>\<open>startLogger\<close> on the same path. If \<^verbatim>\<open>startLogger\<close> succeeds, the writer holds
  an open handle on the file the active path names and the returned error reports
  \<open>e\<close>; if it fails, the returned error reports that failure instead; and if it
  fails to open the file, the handle stays closed.
\<close>

theorem doRotate_rename_failure:
  assumes perm: "ParseInt8 (RotatePerm w) = Some rp"
    and act: "os_Lstat (Filename w) (log_stderr LogDoRotate os) = Inr st"
    and loop: "rotate_loop w None 1 [] (log_stderr LogDoRotate os) = LoopDone err num fName osl"
    and chosen: "\<not> (err = None \<and> num > maxSuffixNum)"
    and rename: "os_Rename (Filename w) fName
                   (log_stderr (LogRenameLog (Filename w) fName) osl) = (Some e, osn)"
    and closed: "wc = w\<lparr>fileWriter := snd (f_Close (fileWriter w))\<rparr>"
  shows "doRotate t w os = restartLogger (Some e) wc osn \<and>
         restartLogger (Some e) wc osn =
           (case startLogger wc osn of
              (None, w', os') \<Rightarrow>
                (Some (Errorf ''rotate: restartLogger err: '' e), w',
                 os'\<lparr>spawned := Suc (spawned os')\<rparr>)
            | (Some se, w', os') \<Rightarrow>
                (Some (Errorf ''rotate: restartLogger startLoggerErr: '' se), w',
                 os'\<lparr>spawned := Suc (spawned os')\<rparr>)) \<and>
         (\<forall>w' os'. startLogger wc osn = (None, w', os') \<longrightarrow>
            handle_valid (fileWriter w') \<and>
            map_option f_ino (fileWriter w') = map_of (dirents os') (Filename w)) \<and>
         (\<forall>ce os'. createLogFile wc osn = (Inl ce, os') \<longrightarrow>
            doRotate t w os =
              (Some (Errorf ''rotate: restartLogger startLoggerErr: '' ce), wc,
               os'\<lparr>spawned := Suc (spawned os')\<rparr>) \<and>
            \<not> handle_valid (fileWriter wc))"
proof -
  have nc: "(err = None \<and> num > maxSuffixNum) = False"
    using chosen by simp
  have d: "doRotate t w os = restartLogger (Some e) wc osn"
    unfolding doRotate_def Let_def perm act loop
    by (simp only: nc rename closed option.case sum.case loop_exit.case if_False prod.case)
  have r: "restartLogger (Some e) wc osn =
           (case startLogger wc osn of
              (None, w', os') \<Rightarrow>
                (Some (Errorf ''rotate: restartLogger err: '' e), w',
                 os'\<lparr>spawned := Suc (spawned os')\<rparr>)
            | (Some se, w', os') \<Rightarrow>
                (Some (Errorf ''rotate: restartLogger startLoggerErr: '' se), w',
                 os'\<lparr>spawned := Suc (spawned os')\<rparr>))"
    by (simp add: restartLogger_def Let_def split: prod.splits option.splits)
  have s: "handle_valid (fileWriter w') \<and>
           map_option f_ino (fileWriter w') = map_of (dirents os') (Filename w)"
    if "startLogger wc osn = (None, w', os')" for w' os'
  proof -
    from startLogger_ok[OF that] obtain f where c: "createLogFile wc osn = (Inr f, os')"
      and fw: "fileWriter w' = Some f"
      by auto
    from createLogFile_handle[OF c] fw closed show ?thesis
      by (simp add: handle_valid_def)
  qed
  have f: "doRotate t w os =
              (Some (Errorf ''rotate: restartLogger startLoggerErr: '' ce), wc,
               os'\<lparr>spawned := Suc (spawned os')\<rparr>) \<and>
            \<not> handle_valid (fileWriter wc)"
    if "createLogFile wc osn = (Inl ce, os')" for ce os'
    using that d closed handle_closed_invalid[of "fileWriter w"]
    by (simp add: restartLogger_def startLogger_def Let_def)
  show ?thesis
    using d r s f by blast
qed

text \<open>
  In a directory that has lost its write permission the rename fails and the file is
  reopened: the rename error is returned and the handle is valid.
\<close>

theorem doRotate_rename_failure_witness:
  "\<exists>w' os'.
     doRotate ex_time ex_full_writer (ex_full_os\<lparr>faults := ex_readonly_dir\<rparr>) =
       (Some (Errorf ''rotate: restartLogger err: ''
                (LinkError ''app.log'' ''app.2024-01-15.log'' EACCES)), w', os') \<and>
     handle_valid (fileWriter w')"
proof -
  let ?os = "ex_full_os\<lparr>faults := ex_readonly_dir\<rparr>"
  let ?osd = "log_stderr LogDoRotate ?os"
  let ?osl = "log_stderr (LogUseFileName ''app.2024-01-15.log'') ?osd"
  let ?osn = "log_stderr (LogRenameLog ''app.log'' ''app.2024-01-15.log'') ?osl"
  let ?wc = "ex_full_writer\<lparr>fileWriter := snd (f_Close (fileWriter ex_full_writer))\<rparr>"
  let ?e = "LinkError ''app.log'' ''app.2024-01-15.log'' EACCES"
  have fn: "Filename ex_full_writer = ''app.log''"
    by (simp add: ex_full_writer_def ex_writer_def)
  have perm: "ParseInt8 (RotatePerm ex_full_writer) = Some 288"
    by (simp add: ex_full_writer_def ex_writer_def) code_simp
  have act: "os_Lstat (Filename ex_full_writer) ?osd = Inr (inodes ex_full_os 0)"
    by (simp add: fn os_Lstat_def ex_full_os_def ex_os_def ex_readonly_dir_def)
  have loop: "rotate_loop ex_full_writer None 1 [] ?osd =
                LoopDone (Some (PathError ''lstat'' ''app.2024-01-15.log'' ENOENT)) 1
                  ''app.2024-01-15.log'' ?osl"
    by (subst rotate_loop.simps)
       (simp add: ex_full_names os_Lstat_def ex_full_os_def ex_os_def ex_readonly_dir_def
          maxSuffixNum_def)
  have rename: "os_Rename (Filename ex_full_writer) ''app.2024-01-15.log''
                  (log_stderr (LogRenameLog (Filename ex_full_writer) ''app.2024-01-15.log'') ?osl) =
                (Some ?e, ?osn)"
    by (simp add: fn os_Rename_def ex_full_os_def ex_readonly_dir_def)
  have pm: "ParseInt8 (Perm ?wc) = Some 432"
    by (simp add: ex_full_writer_def ex_writer_def) code_simp
  from startLogger_existing_no_faults[of ?osn ?wc 0 432] pm
  obtain w' os' where st: "startLogger ?wc ?osn = (None, w', os')"
    by (auto simp: ex_full_writer_def ex_writer_def ex_full_os_def ex_os_def ex_readonly_dir_def
        ex_empty_inode_def)
  from doRotate_rename_failure[OF perm act loop _ rename refl, of ex_time] st
  have "doRotate ex_time ex_full_writer ?os =
          (Some (Errorf ''rotate: restartLogger err: '' ?e), w', os'\<lparr>spawned := Suc (spawned os')\<rparr>)"
    and "handle_valid (fileWriter w')"
    by simp_all
  then show ?thesis
    by blast
qed

section \<open>The archive names of a rotation\<close>

text \<open>
  C2, as stated, puts the active file into the \<^verbatim>\<open>.001\<close> slot when the name without a
  number is taken. The loop of \<^verbatim>\<open>doRotate\<close> goes on after it has moved the old archive
  to \<^verbatim>\<open>.001\<close>: with a limit of one line, three writes at the same time leave the first
  message under \<^verbatim>\<open>.001\<close>, the second under \<^verbatim>\<open>.002\<close> and the third in the active file.
\<close>

theorem doRotate_archive_names_counterexample:
  "map_option (file_contents \<circ> snd)
     (WriteMsgs id [(ex_time, ''a\<newline>''), (ex_time, ''b\<newline>''), (ex_time, ''c\<newline>'')]
        (ex_writer\<lparr>MaxLines := 1\<rparr>) ex_os) =
   Some [(''app.2024-01-15.001.log'', ''a\<newline>''),
         (''app.2024-01-15.002.log'', ''b\<newline>''), (''app.log'', ''c\<newline>'')]"
  by code_simp

text \<open>
  C2, amended. No system call fails, the active file exists, its name is the base name
  with an extension no longer than the suffix (as \<^verbatim>\<open>Init\<close> leaves it), and the \<^verbatim>\<open>.001\<close>
  name is free. If the name without a number is free, the rotation gives it to the
  active file. If it is taken, a line or size limit is configured and the \<^verbatim>\<open>.002\<close>
  name is free, the rotation moves the file of that name to \<^verbatim>\<open>.001\<close> and the active
  file to \<^verbatim>\<open>.002\<close>.
\<close>

theorem doRotate_archive_names:
  assumes perm: "ParseInt8 (RotatePerm w) = Some rp"
    and nf: "faults os = (\<lambda>c. None)"
    and names: "length (Filename w) \<le> length (fileNameOnly w) + length (suffix w)"
    and act: "map_of (dirents os) (Filename w) = Some ia"
    and free: "map_of (dirents os) (numName w 1) = None"
  shows "(map_of (dirents os) (withoutNumName w) = None \<longrightarrow>
            map_of (dirents (snd (snd (doRotate t w os)))) (withoutNumName w) = Some ia \<and>
            map_of (dirents (snd (snd (doRotate t w os)))) (numName w 1) = None) \<and>
         (map_of (dirents os) (withoutNumName w) = Some ib \<and>
          (MaxLines w \<noteq> 0 \<or> MaxSize w \<noteq> 0) \<and>
          map_of (dirents os) (numName w 2) = None \<longrightarrow>
            map_of (dirents (snd (snd (doRotate t w os)))) (numName w 1) = Some ib \<and>
            map_of (dirents (snd (snd (doRotate t w os)))) (numName w 2) = Some ia \<and>
            map_of (dirents (snd (snd (doRotate t w os)))) (withoutNumName w) = None)"
proof (intro conjI impI)
  let ?osd = "log_stderr LogDoRotate os"
  let ?res = "map_of (dirents (snd (snd (doRotate t w os))))"
  have nfd: "faults ?osd c = None" for c
    using nf by simp
  have st: "os_Lstat (Filename w) ?osd = Inr (inodes ?osd ia)"
    using os_Lstat_present[of ?osd "Filename w" ia] nfd act by simp
  have l1: "os_Lstat (numName w 1) ?osd = Inl (PathError ''lstat'' (numName w 1) ENOENT)"
    using os_Lstat_free[of ?osd "numName w 1"] nfd free by simp
  note fneq = Filename_neq[OF names]
  {
    assume wf: "map_of (dirents os) (withoutNumName w) = None"
    let ?osl = "log_stderr (LogUseFileName (withoutNumName w)) ?osd"
    let ?osr = "log_stderr (LogRenameLog (Filename w) (withoutNumName w)) ?osl"
    have lw: "os_Lstat (withoutNumName w) ?osd =
                Inl (PathError ''lstat'' (withoutNumName w) ENOENT)"
      using os_Lstat_free[of ?osd "withoutNumName w"] nfd wf by simp
    note loop = rotate_loop_first[OF l1 lw]
    have rn: "os_Rename (Filename w) (withoutNumName w) ?osr =
                (None, ?osr\<lparr>dirents := AList.update (withoutNumName w) ia
                                   (AList.delete (Filename w) (dirents ?osr))\<rparr>)"
      by (rule os_Rename_ok) (use nf act wf in simp_all)
    have a: "?res p = map_of (AList.update (withoutNumName w) ia
                                   (AList.delete (Filename w) (dirents os))) p"
      if "p \<noteq> Filename w" for p
      using doRotate_renames[OF perm st loop rn that, of t] by simp
    show "?res (withoutNumName w) = Some ia"
      using a[of "withoutNumName w"] fneq(1) by (simp add: map_of_renamed)
    show "?res (numName w 1) = None"
      using a[of "numName w 1"] fneq(2)[of 1] withoutNumName_neq[of w 1] free
      by (simp add: map_of_renamed)
  }
  {
    assume h: "map_of (dirents os) (withoutNumName w) = Some ib \<and>
          (MaxLines w \<noteq> 0 \<or> MaxSize w \<noteq> 0) \<and>
          map_of (dirents os) (numName w 2) = None"
    let ?da = "AList.update (numName w 1) ib (AList.delete (withoutNumName w) (dirents os))"
    let ?osa = "?osd\<lparr>dirents := ?da\<rparr>"
    let ?osl = "log_stderr (LogRenameOk (withoutNumName w) (numName w 1)) ?osa"
    let ?osr = "log_stderr (LogRenameLog (Filename w) (numName w 2)) ?osl"
    have lw: "os_Lstat (withoutNumName w) ?osd = Inr (inodes ?osd ib)"
      using os_Lstat_present[of ?osd "withoutNumName w" ib] nfd h by simp
    have lim: "\<not> (MaxLines w = 0 \<and> MaxSize w = 0)"
      using h by auto
    have r1: "os_Rename (withoutNumName w) (numName w 1) ?osd = (None, ?osa)"
      using os_Rename_ok[of ?osd "withoutNumName w" "numName w 1" ib] nf h free by simp
    have m2: "map_of ?da (numName w 2) = None"
      using h numName_1_2(1)[of w] withoutNumName_neq[of w 2]
      by (auto simp: map_of_renamed)
    have l2: "os_Lstat (numName w 2) ?osl = Inl (PathError ''lstat'' (numName w 2) ENOENT)"
      using os_Lstat_free[of ?osl "numName w 2"] nf m2 by simp
    note loop = rotate_loop_collision[OF l1 lw lim r1 l2]
    have ma: "map_of ?da (Filename w) = Some ia"
      using act fneq(1) fneq(2)[of 1] by (simp add: map_of_renamed)
    have rn: "os_Rename (Filename w) (numName w 2) ?osr =
                (None, ?osr\<lparr>dirents := AList.update (numName w 2) ia
                                   (AList.delete (Filename w) (dirents ?osr))\<rparr>)"
      by (rule os_Rename_ok) (use nf ma m2 in simp_all)
    have a: "?res p = map_of (AList.update (numName w 2) ia (AList.delete (Filename w) ?da)) p"
      if "p \<noteq> Filename w" for p
      using doRotate_renames[OF perm st loop rn that, of t] by simp
    show "?res (numName w 1) = Some ib"
      using a[of "numName w 1"] fneq(2)[of 1] numName_1_2(1)[of w]
      by (simp add: map_of_renamed)
    show "?res (numName w 2) = Some ia"
      using a[of "numName w 2"] fneq(2)[of 2] by (simp add: map_of_renamed)
    show "?res (withoutNumName w) = None"
      using a[of "withoutNumName w"] fneq(1) withoutNumName_neq[of w 1]
        withoutNumName_neq[of w 2]
      by (simp add: map_of_renamed)
  }
qed

text \<open>A first rotation in a directory with the active file only, and a second one.\<close>

theorem doRotate_archive_names_witness:
  "map_of (dirents (snd (snd (doRotate ex_time ex_full_writer ex_full_os))))
     ''app.2024-01-15.log'' = Some 0 \<and>
   map_of (dirents (snd (snd (doRotate ex_time ex_full_writer ex_archived_os))))
     ''app.2024-01-15.001.log'' = Some 0 \<and>
   map_of (dirents (snd (snd (doRotate ex_time ex_full_writer ex_archived_os))))
     ''app.2024-01-15.002.log'' = Some 1"
proof -
  have perm: "ParseInt8 (RotatePerm ex_full_writer) = Some 288"
    by (simp add: ex_full_writer_def ex_writer_def) code_simp
  have names: "length (Filename ex_full_writer) \<le>
                 length (fileNameOnly ex_full_writer) + length (suffix ex_full_writer)"
    by (simp add: ex_full_writer_def ex_writer_def)
  have fn: "Filename ex_full_writer = ''app.log''"
    by (simp add: ex_full_writer_def ex_writer_def)
  have lim: "MaxLines ex_full_writer \<noteq> 0"
    by (simp add: ex_full_writer_def ex_writer_def)
  have a: "faults ex_full_os = (\<lambda>c. None)"
    "map_of (dirents ex_full_os) (Filename ex_full_writer) = Some 0"
    "map_of (dirents ex_full_os) (numName ex_full_writer 1) = None"
    "map_of (dirents ex_full_os) (withoutNumName ex_full_writer) = None"
    by (simp_all add: fn ex_full_names ex_full_os_def ex_os_def)
  have b: "faults ex_archived_os = (\<lambda>c. None)"
    "map_of (dirents ex_archived_os) (Filename ex_full_writer) = Some 1"
    "map_of (dirents ex_archived_os) (numName ex_full_writer 1) = None"
    "map_of (dirents ex_archived_os) (withoutNumName ex_full_writer) = Some 0"
    "map_of (dirents ex_archived_os) (numName ex_full_writer 2) = None"
    by (simp_all add: fn ex_full_names ex_full_name_2 ex_archived_os_def ex_full_os_def ex_os_def)
  from doRotate_archive_names[where t = ex_time and ib = 0, OF perm a(1) names a(2) a(3)] a(4)
  have "map_of (dirents (snd (snd (doRotate ex_time ex_full_writer ex_full_os))))
          (withoutNumName ex_full_writer) = Some 0"
    by simp
  moreover
  from doRotate_archive_names[where t = ex_time and ib = 0, OF perm b(1) names b(2) b(3)] b(4) b(5) lim
  have "map_of (dirents (snd (snd (doRotate ex_time ex_full_writer ex_archived_os))))
          (numName ex_full_writer 1) = Some 0"
    "map_of (dirents (snd (snd (doRotate ex_time ex_full_writer ex_archived_os))))
          (numName ex_full_writer 2) = Some 1"
    by simp_all
  ultimately show ?thesis
    by (simp add: ex_full_names ex_full_name_2)
qed

section \<open>Rotation by line count\<close>



section \<open>Rotation by day\<close>

text \<open>
  C4, as stated, asks for a rotation whenever two writes fall on different calendar
  days. \<^verbatim>\<open>needRotate\<close> compares the day of the month only: a write on 15 January and
  one on 15 February, on a file opened on the 15th, rotate nothing.
\<close>

theorem daily_rotation_counterexample:
  "(t_Year ex_time, t_Month ex_time, t_Day ex_time) \<noteq>
     (t_Year ex_time_next_month, t_Month ex_time_next_month, t_Day ex_time_next_month) \<and>
   Daily ex_daily_writer \<and> \<not> Hourly ex_daily_writer \<and>
   map_option (rotations \<circ> snd)
     (WriteMsgs id [(ex_time, ''a\<newline>''), (ex_time_next_month, ''b\<newline>'')]
        ex_daily_writer ex_os) = Some 0"
  by code_simp

text \<open>
  C4, amended. Rotation and daily rotation are on, hourly rotation is off, the active
  file is open under the active path and was opened on the day of the month of the
  first write, and neither write reaches a line or size limit; no system call fails,
  the two permission strings parse, and the period has no archive yet (its name
  without a number and its name \<^verbatim>\<open>.001\<close> are free). Then the first write rotates
  nothing. If the day of the month of the second write differs from that of the
  first, the second write rotates exactly once: \<^verbatim>\<open>doRotate\<close> is called once, the file
  with the first message is now the archive of the period, the active path names a
  new file that holds the second message alone, and every other name of the directory
  is as it was. If the day of the month is the same (whatever the month and the
  year), nothing is rotated and both messages are in the active file.
\<close>

theorem daily_rotation_day_of_month:
  assumes cfg: "Rotate w" "Daily w" "\<not> Hourly w"
    and lim: "MaxLines w > 0 \<longrightarrow> maxLinesCurLines w + 1 < MaxLines w"
      "MaxSize w > 0 \<longrightarrow> maxSizeCurSize w + written_bytes Strip w [(ta, ma)] < MaxSize w"
    and opened: "DailyOpenDate w = t_Day ta"
    and handle: "fileWriter w = Some f" "\<not> f_closed f"
      "map_of (dirents os) (Filename w) = Some (f_ino f)" "f_ino f < next_ino os"
    and env: "faults os = (\<lambda>c. None)"
      "ParseInt8 (Perm w) = Some pm" "ParseInt8 (RotatePerm w) = Some rp"
    and names: "length (Filename w) \<le> length (fileNameOnly w) + length (suffix w)"
    and free: "map_of (dirents os) (numName w 1) = None"
      "map_of (dirents os) (withoutNumName w) = None"
    and times: "formatTimeHeader ta \<noteq> None" "formatTimeHeader tb \<noteq> None"
  shows "\<exists>wa osa. WriteMsg Strip ta ma w os = Some (None, wa, osa) \<and>
           rotations osa = rotations os \<and> dirents osa = dirents os \<and>
           i_data (inodes osa (f_ino f)) =
             i_data (inodes os (f_ino f)) @ written_data Strip w [(ta, ma)] \<and>
           (\<exists>wb osb. WriteMsg Strip tb mb wa osa = Some (None, wb, osb) \<and>
              (if t_Day tb \<noteq> t_Day ta then
                 rotations osb = Suc (rotations os) \<and>
                 map_of (dirents osb) (withoutNumName w) = Some (f_ino f) \<and>
                 i_data (inodes osb (f_ino f)) =
                   i_data (inodes os (f_ino f)) @ written_data Strip w [(ta, ma)] \<and>
                 map_of (dirents osb) (Filename w) = Some (next_ino os) \<and>
                 fileWriter wb = Some \<lparr>f_ino = next_ino os, f_closed = False\<rparr> \<and>
                 i_data (inodes osb (next_ino os)) = written_data Strip w [(tb, mb)] \<and>
                 (\<forall>p. p \<noteq> Filename w \<and> p \<noteq> withoutNumName w \<longrightarrow>
                        map_of (dirents osb) p = map_of (dirents os) p)
               else
                 rotations osb = rotations os \<and> dirents osb = dirents os \<and>
                 fileWriter wb = Some f \<and>
                 i_data (inodes osb (f_ino f)) =
                   i_data (inodes os (f_ino f)) @ written_data Strip w [(ta, ma), (tb, mb)]))"
proof -
  let ?sa = "if StripColors w then Strip ma else ma"
  let ?sb = "if StripColors w then Strip mb else mb"
  have wd: "written_data Strip w [(ta, ma)] = ?sa" "written_data Strip w [(tb, mb)] = ?sb"
    "written_data Strip w [(ta, ma), (tb, mb)] = ?sa @ ?sb"
    "written_bytes Strip w [(ta, ma)] = int (length ?sa)"
    by (simp_all add: written_data_def written_bytes_def)
  from times(1) obtain hdr d h where ha: "formatTimeHeader ta = Some (hdr, d, h)"
    by auto
  from times(2) obtain hdr' d' h' where hb: "formatTimeHeader tb = Some (hdr', d', h')"
    by auto
  from formatTimeHeader_day_hour[OF ha] formatTimeHeader_day_hour[OF hb]
  have dd: "d = t_Day ta" "d' = t_Day tb" by simp_all
  have fw: "faults os (SysWrite (f_ino f)) = None"
    using env(1) by simp
  have n: "\<not> (Rotate w \<and> needRotate w 0 d h)"
    using cfg lim opened dd by (auto simp: needRotate_def wd)
  let ?wa = "w\<lparr>maxLinesCurLines := maxLinesCurLines w + 1,
              maxSizeCurSize := maxSizeCurSize w + int (length ?sa)\<rparr>"
  let ?osa = "os\<lparr>inodes := (inodes os)(f_ino f :=
                   (inodes os (f_ino f))\<lparr>i_data := i_data (inodes os (f_ino f)) @ ?sa,
                                          i_mtime := now os\<rparr>)\<rparr>"
  have wa: "WriteMsg Strip ta ma w os = Some (None, ?wa, ?osa)"
    using WriteMsg_no_rotation[OF ha n, of Strip ma os]
      appendMsg_no_fault[OF handle(1,2) fw, of ?sa]
    by simp
  have fa: "rotations ?osa = rotations os" "dirents ?osa = dirents os"
    "i_data (inodes ?osa (f_ino f)) = i_data (inodes os (f_ino f)) @ ?sa"
    by (simp_all add: rotations_def)
  have second: "\<exists>wb osb. WriteMsg Strip tb mb ?wa ?osa = Some (None, wb, osb) \<and>
              (if t_Day tb \<noteq> t_Day ta then
                 rotations osb = Suc (rotations os) \<and>
                 map_of (dirents osb) (withoutNumName w) = Some (f_ino f) \<and>
                 i_data (inodes osb (f_ino f)) = i_data (inodes os (f_ino f)) @ ?sa \<and>
                 map_of (dirents osb) (Filename w) = Some (next_ino os) \<and>
                 fileWriter wb = Some \<lparr>f_ino = next_ino os, f_closed = False\<rparr> \<and>
                 i_data (inodes osb (next_ino os)) = ?sb \<and>
                 (\<forall>p. p \<noteq> Filename w \<and> p \<noteq> withoutNumName w \<longrightarrow>
                        map_of (dirents osb) p = map_of (dirents os) p)
               else
                 rotations osb = rotations os \<and> dirents osb = dirents os \<and>
                 fileWriter wb = Some f \<and>
                 i_data (inodes osb (f_ino f)) = i_data (inodes os (f_ino f)) @ ?sa @ ?sb)"
  proof (cases "t_Day tb \<noteq> t_Day ta")
    case True
    have nb: "Rotate ?wa" "needRotate ?wa 0 d' h'"
      using cfg opened dd True by (simp_all add: needRotate_def)
    from WriteMsg_first_rotation[where w = ?wa and os = ?osa and Strip = Strip and msg = mb
        and smsg = ?sb and ia = "f_ino f" and rp = rp and pm = pm, OF hb nb]
      env names handle(3) free
    obtain wb osb where wm: "WriteMsg Strip tb mb ?wa ?osa = Some (None, wb, osb)"
      and pb: "rotations osb = Suc (rotations ?osa)"
        "fileWriter wb = Some \<lparr>f_ino = next_ino os, f_closed = False\<rparr>"
        "\<forall>p. map_of (dirents osb) p =
                  (if p = Filename w then Some (next_ino os)
                   else if p = withoutNumName w then Some (f_ino f)
                   else map_of (dirents os) p)"
        "\<forall>j. i_data (inodes osb j) =
              (if j = next_ino os then ?sb else i_data (inodes ?osa j))"
      by (auto simp: names_counters)
    note fneq = Filename_neq(1)[OF names]
    have "i_data (inodes osb (f_ino f)) = i_data (inodes os (f_ino f)) @ ?sa"
      using pb(4) handle(4) by simp
    moreover have "map_of (dirents osb) (withoutNumName w) = Some (f_ino f)"
      using pb(3) fneq by simp
    moreover have "rotations osb = Suc (rotations os)"
      using pb(1) fa(1) by simp
    ultimately show ?thesis
      using True wm pb(2,3,4) by (intro exI[of _ wb] exI[of _ osb]) simp
  next
    case False
    have nb: "\<not> (Rotate ?wa \<and> needRotate ?wa 0 d' h')"
      using cfg lim opened dd False by (auto simp: needRotate_def wd)
    let ?wb = "?wa\<lparr>maxLinesCurLines := maxLinesCurLines ?wa + 1,
              maxSizeCurSize := maxSizeCurSize ?wa + int (length ?sb)\<rparr>"
    let ?osb = "?osa\<lparr>inodes := (inodes ?osa)(f_ino f :=
                   (inodes ?osa (f_ino f))\<lparr>i_data := i_data (inodes ?osa (f_ino f)) @ ?sb,
                                          i_mtime := now ?osa\<rparr>)\<rparr>"
    have "WriteMsg Strip tb mb ?wa ?osa = Some (None, ?wb, ?osb)"
      using WriteMsg_no_rotation[OF hb nb, of Strip mb ?osa]
        appendMsg_no_fault[of ?wa f ?osa ?sb] handle(1,2) fw
      by simp
    then show ?thesis
      using False handle(1) by (intro exI[of _ ?wb] exI[of _ ?osb]) (simp add: rotations_def)
  qed
  from wa fa second show ?thesis
    unfolding wd
    by (intro exI[of _ ?wa] exI[of _ ?osa]) (rule conjI | assumption)+
qed

text \<open>
  A write on the 15th and one on the 16th: the first message ends in
  \<^verbatim>\<open>app.2024-01-15.log\<close>, the second in a new \<^verbatim>\<open>app.log\<close>.
\<close>

theorem daily_rotation_day_of_month_witness:
  "\<exists>wa osa wb osb.
     WriteMsg id ex_time ''a\<newline>'' ex_daily_writer ex_os = Some (None, wa, osa) \<and>
     rotations osa = 0 \<and> dirents osa = [(''app.log'', 0)] \<and>
     i_data (inodes osa 0) = ''a\<newline>'' \<and>
     WriteMsg id ex_time_next_day ''b\<newline>'' wa osa = Some (None, wb, osb) \<and>
     rotations osb = 1 \<and>
     map_of (dirents osb) ''app.2024-01-15.log'' = Some 0 \<and>
     i_data (inodes osb 0) = ''a\<newline>'' \<and>
     map_of (dirents osb) ''app.log'' = Some 1 \<and>
     i_data (inodes osb 1) = ''b\<newline>'' \<and>
     map_of (dirents osb) ''app.2024-01-15.001.log'' = None"
proof -
  let ?f = "\<lparr>f_ino = 0, f_closed = False\<rparr>"
  have h: "formatTimeHeader ex_time \<noteq> None"
    by (simp add: ex_time_header)
  have h': "formatTimeHeader ex_time_next_day \<noteq> None"
    by code_simp
  have r0: "rotations ex_os = 0"
    by (simp add: rotations_def ex_os_def)
  have p: "ParseInt8 (Perm ex_daily_writer) = Some 432"
    "ParseInt8 (RotatePerm ex_daily_writer) = Some 288"
    by code_simp+
  have c: "Rotate ex_daily_writer" "Daily ex_daily_writer" "\<not> Hourly ex_daily_writer"
    "DailyOpenDate ex_daily_writer = t_Day ex_time"
    "fileWriter ex_daily_writer = Some ?f"
    "length (Filename ex_daily_writer)
       \<le> length (fileNameOnly ex_daily_writer) + length (suffix ex_daily_writer)"
    "Filename ex_daily_writer = ''app.log''" "\<not> StripColors ex_daily_writer"
    by (simp_all add: ex_daily_writer_def ex_writer_def ex_time_def)
  have eo: "i_data (inodes ex_os 0) = []" "dirents ex_os = [(''app.log'', 0)]"
    "next_ino ex_os = 1" "faults ex_os = (\<lambda>c. None)"
    by (simp_all add: ex_os_def ex_empty_inode_def)
  have fr: "map_of (dirents ex_os) (numName ex_daily_writer 1) = None"
    "map_of (dirents ex_os) (withoutNumName ex_daily_writer) = None"
    unfolding ex_names by (simp_all add: ex_os_def)
  have g: "0 < MaxLines ex_daily_writer \<longrightarrow>
             maxLinesCurLines ex_daily_writer + 1 < MaxLines ex_daily_writer"
    "0 < MaxSize ex_daily_writer \<longrightarrow>
       maxSizeCurSize ex_daily_writer + written_bytes id ex_daily_writer [(ex_time, ''a\<newline>'')]
         < MaxSize ex_daily_writer"
    "\<not> f_closed ?f"
    "map_of (dirents ex_os) (Filename ex_daily_writer) = Some (f_ino ?f)"
    "f_ino ?f < next_ino ex_os"
    using eo by (simp_all add: ex_daily_writer_def ex_writer_def)
  have d: "t_Day ex_time_next_day \<noteq> t_Day ex_time"
    by (simp add: ex_time_next_day_def ex_time_def)
  have wd: "written_data id ex_daily_writer [(ex_time, ''a\<newline>'')] = ''a\<newline>''"
    "written_data id ex_daily_writer [(ex_time_next_day, ''b\<newline>'')] = ''b\<newline>''"
    using c(8) by (simp_all add: written_data_def)
  from daily_rotation_day_of_month[where w = ex_daily_writer and Strip = id
      and ta = ex_time and tb = ex_time_next_day and ma = "''a\<newline>''"
      and mb = "''b\<newline>''" and os = ex_os and f = ?f and pm = 432 and rp = 288,
      OF c(1,2,3) g(1,2) c(4,5) g(3,4,5) eo(4) p c(6) fr h h']
  obtain wa osa wb osb where
    "WriteMsg id ex_time ''a\<newline>'' ex_daily_writer ex_os = Some (None, wa, osa)"
    "rotations osa = rotations ex_os" "dirents osa = dirents ex_os"
    "i_data (inodes osa (f_ino ?f)) =
       i_data (inodes ex_os (f_ino ?f)) @ written_data id ex_daily_writer [(ex_time, ''a\<newline>'')]"
    "WriteMsg id ex_time_next_day ''b\<newline>'' wa osa = Some (None, wb, osb)"
    "rotations osb = Suc (rotations ex_os)"
    "map_of (dirents osb) (withoutNumName ex_daily_writer) = Some (f_ino ?f)"
    "i_data (inodes osb (f_ino ?f)) =
       i_data (inodes ex_os (f_ino ?f)) @ written_data id ex_daily_writer [(ex_time, ''a\<newline>'')]"
    "map_of (dirents osb) (Filename ex_daily_writer) = Some (next_ino ex_os)"
    "i_data (inodes osb (next_ino ex_os)) =
       written_data id ex_daily_writer [(ex_time_next_day, ''b\<newline>'')]"
    "\<forall>p. p \<noteq> Filename ex_daily_writer \<and> p \<noteq> withoutNumName ex_daily_writer \<longrightarrow>
           map_of (dirents osb) p = map_of (dirents ex_os) p"
    unfolding if_P[OF d] by (elim exE conjE) (rule that)
  then show ?thesis
    unfolding r0 wd ex_names eo c(7) using eo(1)
    by (intro exI[of _ wa] exI[of _ osa] exI[of _ wb] exI[of _ osb]) simp
qed

text \<open>
  Why the archive name has to be free: when the archive of the period is there and
  the writer has no line or size limit, \<^verbatim>\<open>doRotate\<close> is called, renames nothing and
  reopens the active file; both messages end in it.
\<close>

lemma daily_rotation_skip:
  "map_option (\<lambda>r. (rotations (snd r), dirents (snd r), i_data (inodes (snd r) 0)))
     (WriteMsgs id [(ex_time, ''a\<newline>''), (ex_time_next_day, ''b\<newline>'')]
        ex_daily_writer ex_skip_os) =
   Some (1, [(''app.log'', 0), (''app.2024-01-15.log'', 2)], ''a\<newline>b\<newline>'')"
  by code_simp

section \<open>The counters of a write\<close>

text \<open>
  C5, as stated, compares the counters before and after a call. A call that rotates
  re-seeds them first: with three lines and twelve bytes counted and a limit of three
  lines, a successful five-byte write leaves the counters at one line and five bytes.
\<close>

theorem WriteMsg_counters_counterexample:
  "map_option result_counters (WriteMsg id ex_time ''hello'' ex_full_writer ex_full_os) =
     Some (None, 1, 5) \<and>
   maxLinesCurLines ex_full_writer = 3 \<and> maxSizeCurSize ex_full_writer = 12"
  by code_simp

text \<open>
  C5, amended. Take the counters as they stand after the rotation block of the call
  (they are the counters at entry whenever no rotation is due). If the append
  succeeds, the line counter is that value plus one and the byte counter that value
  plus the length of the message after stripping; if the append fails, both counters
  keep that value and the error of the write is returned as it is.
\<close>

theorem WriteMsg_counters:
  assumes "formatTimeHeader when = Some (hdr, d, h)"
    and "smsg = (if StripColors w then Strip msg else msg)"
    and "rotateIfNeeded when smsg d h w os = (wr, osr)"
  shows "(f_Write (fileWriter wr) smsg osr = (None, osw) \<longrightarrow>
            WriteMsg Strip when msg w os =
              Some (None,
                    wr\<lparr>maxLinesCurLines := maxLinesCurLines wr + 1,
                       maxSizeCurSize := maxSizeCurSize wr + int (length smsg)\<rparr>,
                    osw)) \<and>
         (f_Write (fileWriter wr) smsg osr = (Some e, osw) \<longrightarrow>
            WriteMsg Strip when msg w os = Some (Some e, wr, osw)) \<and>
         (\<not> (Rotate w \<and> needRotate w (int (length smsg)) d h) \<longrightarrow> wr = w \<and> osr = os)"
proof (intro conjI impI)
  assume "f_Write (fileWriter wr) smsg osr = (None, osw)"
  then show "WriteMsg Strip when msg w os =
              Some (None,
                    wr\<lparr>maxLinesCurLines := maxLinesCurLines wr + 1,
                       maxSizeCurSize := maxSizeCurSize wr + int (length smsg)\<rparr>,
                    osw)"
    using assms by (simp add: WriteMsg_def appendMsg_def)
next
  assume "f_Write (fileWriter wr) smsg osr = (Some e, osw)"
  then show "WriteMsg Strip when msg w os = Some (Some e, wr, osw)"
    using assms by (simp add: WriteMsg_def appendMsg_def)
next
  assume "\<not> (Rotate w \<and> needRotate w (int (length smsg)) d h)"
  then show "wr = w" "osr = os"
    using assms(3) rotateIfNeeded_skip[of w "int (length smsg)" d h "when" smsg os] by simp_all
qed

text \<open>
  A six-byte message on the open handle is counted; on a closed handle the write
  fails, the error is returned and the counters stay.
\<close>

theorem WriteMsg_counters_witness:
  "map_option result_counters (WriteMsg id ex_time ''hello\<newline>'' ex_writer ex_os) =
     Some (None, 1, 6) \<and>
   map_option result_counters
     (WriteMsg id ex_time ''hello\<newline>''
        (ex_writer\<lparr>fileWriter := Some \<lparr>f_ino = 0, f_closed = True\<rparr>\<rparr>) ex_os) =
     Some (Some ErrClosed, 0, 0)"
proof -
  let ?m = "''hello\<newline>''"
  let ?wc = "ex_writer\<lparr>fileWriter := Some \<lparr>f_ino = 0, f_closed = True\<rparr>\<rparr>"
  have n: "\<not> needRotate ex_writer s 15 10" "\<not> needRotate ?wc s 15 10" for s
    by (simp_all add: needRotate_def ex_writer_def)
  have r1: "rotateIfNeeded ex_time ?m 15 10 ex_writer ex_os = (ex_writer, ex_os)"
    using n(1) by (simp add: rotateIfNeeded_skip[of _ 0])
  have r2: "rotateIfNeeded ex_time ?m 15 10 ?wc ex_os = (?wc, ex_os)"
    using n(2) by (simp add: rotateIfNeeded_skip[of _ 0])
  have m1: "?m = (if StripColors ex_writer then id ?m else ?m)"
    and m2: "?m = (if StripColors ?wc then id ?m else ?m)"
    by simp_all
  obtain os2 where w1: "f_Write (fileWriter ex_writer) ?m ex_os = (None, os2)"
    by (simp add: f_Write_def ex_writer_def ex_os_def)
  have w2: "f_Write (fileWriter ?wc) ?m ex_os = (Some ErrClosed, ex_os)"
    by (simp add: f_Write_def)
  from WriteMsg_counters[where Strip = id and msg = ?m and w = ex_writer and os = ex_os
      and smsg = ?m and wr = ex_writer and osr = ex_os and osw = os2,
      OF ex_time_header m1 r1] w1
  have a: "WriteMsg id ex_time ?m ex_writer ex_os =
             Some (None,
                   ex_writer\<lparr>maxLinesCurLines := maxLinesCurLines ex_writer + 1,
                             maxSizeCurSize := maxSizeCurSize ex_writer + int (length ?m)\<rparr>,
                   os2)"
    by simp
  from WriteMsg_counters[where Strip = id and msg = ?m and w = ?wc and os = ex_os
      and smsg = ?m and wr = ?wc and osr = ex_os and osw = ex_os and e = ErrClosed,
      OF ex_time_header m2 r2] w2
  have b: "WriteMsg id ex_time ?m ?wc ex_os = Some (Some ErrClosed, ?wc, ex_os)"
    by simp
  show ?thesis
    unfolding a b by (simp add: result_counters_def ex_writer_def)
qed

section \<open>Recovery of the line count on open\<close>

text \<open>
  C6. Opening the writer (\<^verbatim>\<open>Init\<close>) on a destination file that already exists and
  holds \<open>N\<close> newline-terminated lines (\<open>N > 0\<close>), with rotation on and a positive
  line limit, succeeds when no system call fails, seeds the line counter with \<open>N\<close>,
  which is the result of the chunked read loop counting newline bytes, and leaves the
  content of every file as it was.
\<close>

theorem Init_recovers_line_count:
  assumes u: "Unmarshal jsonConfig w0 = Inr w"
    and fn: "Filename w \<noteq> []"
    and ex: "map_of (dirents os) (Filename w) = Some i"
    and nd: "\<not> i_isdir (inodes os i)"
    and dat: "i_data (inodes os i) = concat (map (\<lambda>l. l @ [CHR 0x0A]) ls)"
    and ne: "ls \<noteq> []"
    and nl: "\<forall>l\<in>set ls. CHR 0x0A \<notin> set l"
    and rot: "Rotate w" and ml: "MaxLines w > 0"
    and perm: "ParseInt8 (Perm w) = Some pm"
    and nf: "faults os = (\<lambda>c. None)"
  shows "\<exists>w' os'. Init Unmarshal jsonConfig w0 os = (None, w', os') \<and>
           maxLinesCurLines w' = int (length ls) \<and>
           maxLinesCurLines w' = read_loop (i_data (inodes os i)) 0 0 \<and>
           dirents os' = dirents os \<and>
           (\<forall>j. i_data (inodes os' j) = i_data (inodes os j))"
proof -
  define w2 where "w2 = w\<lparr>suffix := filepath_Ext (Filename w)\<rparr>"
  define w3 where "w3 = w2\<lparr>fileNameOnly := TrimSuffix (Filename w2) (suffix w2)\<rparr>"
  define w4 where "w4 = (if suffix w3 = [] then w3\<lparr>suffix := ''.log''\<rparr> else w3)"
  have i: "Init Unmarshal jsonConfig w0 os = startLogger w4 os"
    using u fn by (simp add: Init_def Let_def w2_def w3_def w4_def)
  have c: "Filename w4 = Filename w" "Rotate w4 = Rotate w" "MaxLines w4 = MaxLines w"
    "Perm w4 = Perm w"
    by (simp_all add: w2_def w3_def w4_def)
  from startLogger_existing_no_faults[of os w4 i pm] ex nd perm nf c
  obtain w' os' where s: "startLogger w4 os = (None, w', os')"
    and l: "maxLinesCurLines w' = recovered_lines w4 (i_data (inodes os i))"
    and d: "dirents os' = dirents os"
    and k: "\<forall>j. i_data (inodes os' j) = i_data (inodes os j)"
    by auto
  have "recovered_lines w4 (i_data (inodes os i)) = count_newlines (i_data (inodes os i))"
    using rot ml c by (simp add: recovered_lines_def)
  moreover have "count_newlines (i_data (inodes os i)) = int (length ls)"
    using count_newlines_lines[OF nl] dat by simp
  moreover have "read_loop (i_data (inodes os i)) 0 0 = count_newlines (i_data (inodes os i))"
    by (simp add: read_loop_count)
  ultimately show ?thesis
    using i s l d k by simp
qed

text \<open>The file of three lines, opened with a line limit of three.\<close>

theorem Init_recovers_line_count_witness:
  "\<exists>w' os'. Init ex_unmarshal ''{}'' defaultWriter ex_full_os = (None, w', os') \<and>
     maxLinesCurLines w' = 3 \<and> i_data (inodes os' 0) = ex_three_lines"
proof -
  let ?w = "defaultWriter\<lparr>Filename := ''app.log'', MaxLines := 3\<rparr>"
  have u: "ex_unmarshal ''{}'' defaultWriter = Inr ?w"
    by (simp add: ex_unmarshal_def)
  have d: "i_data (inodes ex_full_os 0) =
             concat (map (\<lambda>l. l @ [CHR 0x0A]) [''aaa'', ''bbb'', ''ccc''])"
    by (simp add: ex_full_os_def ex_three_lines_def)
  have p: "ParseInt8 (Perm ?w) = Some 432"
    by (simp add: defaultWriter_def) code_simp
  from Init_recovers_line_count[of ex_unmarshal "''{}''" defaultWriter ?w ex_full_os 0
      "[''aaa'', ''bbb'', ''ccc'']" 432] u d p
  obtain w' os' where "Init ex_unmarshal ''{}'' defaultWriter ex_full_os = (None, w', os')"
    and "maxLinesCurLines w' = int (length [''aaa'', ''bbb'', ''ccc''])"
    and "\<forall>j. i_data (inodes os' j) = i_data (inodes ex_full_os j)"
    by (auto simp: defaultWriter_def ex_full_os_def ex_os_def ex_empty_inode_def)
  then show ?thesis
    by (auto simp: ex_full_os_def ex_empty_inode_def)
qed

section \<open>The instance registry\<close>

text \<open>
  C7, as stated, has the registry keyed by a canonical fingerprint of the
  configuration, so that one configuration has one writer. The key is the
  configuration string as \<^verbatim>\<open>newFileWriter\<close> receives it, and nothing brings it to a
  canonical form: \<^verbatim>\<open>{"filename":"app.log"}\<close> and the same with a space after the
  colon are decoded to the same settings, and get a writer each, both open on
  \<^verbatim>\<open>app.log\<close>.
\<close>

theorem newFileWriter_counterexample:
  "ex_json_app \<noteq> ex_json_app_spaced \<and>
   ex_json_decoder ex_json_app defaultWriter = ex_json_decoder ex_json_app_spaced defaultWriter \<and>
   fst ex_first_call = Some 0 \<and> fst ex_second_call = Some 1 \<and>
   map (map_option Filename) (registry_writers (fst (snd ex_second_call))) =
     [Some ''app.log'', Some ''app.log''] \<and>
   map (map_option fileWriter) (registry_writers (fst (snd ex_second_call))) =
     [Some (Some \<lparr>f_ino = 0, f_closed = False\<rparr>),
      Some (Some \<lparr>f_ino = 0, f_closed = False\<rparr>)]"
  by code_simp

text \<open>
  C7, amended. The registry is keyed by the configuration string as it is passed. A
  string that has an entry gets the pointer of that entry back, with the registry and
  the writers as they were; \<^verbatim>\<open>Init\<close>, and with it the decoder, is not run. For a string
  without an entry \<^verbatim>\<open>Init\<close> is run on a writer of the default settings: if it fails,
  nothing is registered; if it succeeds, the writer is stored at a new address,
  different from every registered one, and entered under the string. No call removes
  or replaces an entry, or changes the writer of an entry. So there is at most one
  writer for each configuration string. (The pointers in the registry are addresses
  that have been given out: this holds of the empty registry and every call keeps it.)
\<close>

theorem newFileWriter_registry:
  assumes m: "m = (case instanceMap reg of None \<Rightarrow> Map.empty | Some m0 \<Rightarrow> m0)"
    and alloc: "\<forall>k a. m k = Some a \<longrightarrow> a < next_addr reg"
    and call: "newFileWriter Unmarshal jsonConfig reg os = (r, reg', os')"
  shows "(\<forall>v. m jsonConfig = Some v \<longrightarrow>
            r = Some v \<and> reg' = reg\<lparr>instanceMap := Some m\<rparr> \<and>
            os' = log_stderr LogUseExist os) \<and>
         (m jsonConfig = None \<longrightarrow>
            (\<exists>e w. Init Unmarshal jsonConfig defaultWriter (log_stderr LogCreateNew os) =
                      (e, w, os') \<and>
               (case e of
                  None \<Rightarrow>
                    r = Some (next_addr reg) \<and>
                    instanceMap reg' = Some (m(jsonConfig \<mapsto> next_addr reg)) \<and>
                    heap reg' (next_addr reg) = Some w \<and>
                    next_addr reg' = Suc (next_addr reg)
                | Some err \<Rightarrow> r = None \<and> reg' = reg\<lparr>instanceMap := Some m\<rparr>))) \<and>
         (\<forall>k a. m k = Some a \<longrightarrow>
            (\<exists>m'. instanceMap reg' = Some m' \<and> m' k = Some a) \<and>
            heap reg' a = heap reg a \<and>
            (k \<noteq> jsonConfig \<and> m jsonConfig = None \<longrightarrow> r \<noteq> Some a)) \<and>
         (\<forall>m' k a. instanceMap reg' = Some m' \<and> m' k = Some a \<longrightarrow> a < next_addr reg')"
proof -
  let ?reg = "reg\<lparr>instanceMap := Some m\<rparr>"
  show ?thesis
  proof (cases "m jsonConfig")
    case (Some v)
    have "newFileWriter Unmarshal jsonConfig reg os = (Some v, ?reg, log_stderr LogUseExist os)"
      unfolding newFileWriter_def Let_def m[symmetric] using Some by simp
    with call have "r = Some v" "reg' = ?reg" "os' = log_stderr LogUseExist os"
      by auto
    then show ?thesis
      using Some alloc by auto
  next
    case None
    obtain e w osi where i: "Init Unmarshal jsonConfig defaultWriter (log_stderr LogCreateNew os) =
        (e, w, osi)"
      by (cases "Init Unmarshal jsonConfig defaultWriter (log_stderr LogCreateNew os)")
    show ?thesis
    proof (cases e)
      case e: None
      have "newFileWriter Unmarshal jsonConfig reg os =
              (Some (next_addr reg),
               ?reg\<lparr>instanceMap := Some (m(jsonConfig \<mapsto> next_addr reg)),
                  heap := (heap reg)(next_addr reg \<mapsto> w),
                  next_addr := Suc (next_addr reg)\<rparr>, osi)"
        unfolding newFileWriter_def Let_def m[symmetric] using None i e by simp
      with call have "r = Some (next_addr reg)" "os' = osi"
        "reg' = ?reg\<lparr>instanceMap := Some (m(jsonConfig \<mapsto> next_addr reg)),
                  heap := (heap reg)(next_addr reg \<mapsto> w),
                  next_addr := Suc (next_addr reg)\<rparr>"
        by auto
      then show ?thesis
        using None alloc i e by (auto simp: less_Suc_eq)
    next
      case e: (Some err)
      have "newFileWriter Unmarshal jsonConfig reg os = (None, ?reg, osi)"
        unfolding newFileWriter_def Let_def m[symmetric] using None i e by simp
      with call have "r = None" "os' = osi" "reg' = ?reg"
        by auto
      then show ?thesis
        using None alloc i e by auto
    qed
  qed
qed

text \<open>The first configuration a second time: the first writer comes back.\<close>

theorem newFileWriter_registry_witness:
  "fst ex_first_call = Some 0 \<and>
   (\<exists>w. heap (fst (snd ex_first_call)) 0 = Some w) \<and>
   newFileWriter ex_json_decoder ex_json_app (fst (snd ex_first_call)) (snd (snd ex_first_call)) =
     (Some 0, fst (snd ex_first_call), log_stderr LogUseExist (snd (snd ex_first_call)))"
proof -
  have f: "fst ex_first_call = Some 0"
    by code_simp
  have "ex_first_call = (Some 0, fst (snd ex_first_call), snd (snd ex_first_call))"
    using f by (simp add: prod_eq_iff)
  then obtain regn osn where e: "ex_first_call = (Some 0, regn, osn)"
    by blast
  have r: "Map.empty = (case instanceMap ex_registry of None \<Rightarrow> Map.empty | Some m0 \<Rightarrow> m0)"
    "next_addr ex_registry = 0"
    by (simp_all add: ex_registry_def)
  from newFileWriter_registry[where m = Map.empty and reg = ex_registry and reg' = regn
      and Unmarshal = ex_json_decoder and jsonConfig = ex_json_app and os = ex_os
      and r = "Some 0" and os' = osn, OF r(1) _ e[unfolded ex_first_call_def]]
  obtain w where c: "instanceMap regn = Some [ex_json_app \<mapsto> 0]" "heap regn 0 = Some w"
    "next_addr regn = Suc 0"
    unfolding r(2) by (auto split: option.splits)
  obtain q regq osq where s: "newFileWriter ex_json_decoder ex_json_app regn osn = (q, regq, osq)"
    by (cases "newFileWriter ex_json_decoder ex_json_app regn osn")
  from newFileWriter_registry[where m = "[ex_json_app \<mapsto> 0]" and reg = regn
      and Unmarshal = ex_json_decoder and jsonConfig = ex_json_app and os = osn, OF _ _ s] c
  have "q = Some 0" "regq = regn" "osq = log_stderr LogUseExist osn"
    by simp_all
  then show ?thesis
    using s c(2) unfolding e by simp
qed

section \<open>The retention sweep\<close>

text \<open>
  C8, as stated, has the sweep leave the active file alone. The callback tests the
  name and the age of an entry and nothing else: an active file \<^verbatim>\<open>app.log\<close> last
  written ten days ago is removed by a sweep with seven days of retention, together
  with the archive of fourteen days.
\<close>

theorem deleteOldLog_counterexample:
  "Filename ex_writer = ''app.log'' \<and>
   map fst (dirents (deleteOldLog ex_writer ex_sweep_os)) =
     [''app.2024-01-14.log'', ''notes.txt'']"
  by code_simp

text \<open>
  C8, amended. No system call fails and the retention is between -106751 and 106751
  days (the range in which the period in nanoseconds fits 64 bits). Then the sweep
  removes exactly the entries at or below the directory of the active path that are
  not directories, whose base name starts with the base name of the writer and ends
  with its suffix, and whose modification time plus the retention period is before
  the clock; every other entry keeps its file, and no file changes. The active file
  is among the entries removed when its own modification time is that old.
\<close>

theorem deleteOldLog_deletes:
  assumes nf: "faults os = (\<lambda>c. None)"
    and range: "- 106751 \<le> MaxDays w" "MaxDays w \<le> 106751"
  shows "map_of (dirents (deleteOldLog w os)) p =
           (if under (filepath_Dir (Filename w)) p \<and>
               (\<exists>i. map_of (dirents os) p = Some i \<and> \<not> i_isdir (inodes os i) \<and>
                    t_UnixNano (i_mtime (inodes os i)) + 86400000000000 * MaxDays w
                      < t_UnixNano (now os)) \<and>
               HasPrefix (filepath_Base p) (filepath_Base (fileNameOnly w)) \<and>
               HasSuffix (filepath_Base p) (suffix w)
            then None else map_of (dirents os) p) \<and>
         inodes (deleteOldLog w os) = inodes os"
proof -
  let ?dir = "filepath_Dir (Filename w)"
  from fold_walkFn[OF nf, of w "walk_paths ?dir os"]
  have i: "inodes (deleteOldLog w os) = inodes os"
    and m: "map_of (dirents (deleteOldLog w os)) p =
              (if p \<in> set (walk_paths ?dir os) \<and> sweepable w os p then None
               else map_of (dirents os) p)"
    by (simp_all add: deleteOldLog_def)
  have "(p \<in> set (walk_paths ?dir os) \<and> sweepable w os p) = (under ?dir p \<and> sweepable w os p)"
    using set_walk_paths[of p ?dir os] sweepable_present[of w os p] by auto
  moreover have "sweepable w os p =
     ((\<exists>i. map_of (dirents os) p = Some i \<and> \<not> i_isdir (inodes os i) \<and>
                    t_UnixNano (i_mtime (inodes os i)) + 86400000000000 * MaxDays w
                      < t_UnixNano (now os)) \<and>
               HasPrefix (filepath_Base p) (filepath_Base (fileNameOnly w)) \<and>
               HasSuffix (filepath_Base p) (suffix w))"
    by (auto simp: sweepable_def retention_in_range[OF range] matchesLog_def split: option.splits)
  ultimately show ?thesis
    using i m by simp
qed

text \<open>The old archive goes; the recent archive and the file of another name stay.\<close>

theorem deleteOldLog_deletes_witness:
  "map_of (dirents (deleteOldLog ex_writer ex_sweep_os)) ''app.2024-01-01.log'' = None \<and>
   map_of (dirents (deleteOldLog ex_writer ex_sweep_os)) ''app.2024-01-14.log'' = Some 12 \<and>
   map_of (dirents (deleteOldLog ex_writer ex_sweep_os)) ''notes.txt'' = Some 13"
proof -
  have nf: "faults ex_sweep_os = (\<lambda>c. None)"
    by (simp add: ex_sweep_os_def ex_os_def)
  have range: "- 106751 \<le> MaxDays ex_writer" "MaxDays ex_writer \<le> 106751"
    by (simp_all add: ex_writer_def)
  have md: "MaxDays ex_writer = 7"
    by (simp add: ex_writer_def)
  have d: "map_of (dirents ex_sweep_os) ''app.2024-01-01.log'' = Some 11"
    "map_of (dirents ex_sweep_os) ''app.2024-01-14.log'' = Some 12"
    "map_of (dirents ex_sweep_os) ''notes.txt'' = Some 13"
    by (simp_all add: ex_sweep_os_def)
  have t: "t_UnixNano (i_mtime (inodes ex_sweep_os 11)) = 1705312800000000000 - 14 * 86400000000000"
    "t_UnixNano (i_mtime (inodes ex_sweep_os 12)) = 1705312800000000000 - 1 * 86400000000000"
    "t_UnixNano (now ex_sweep_os) = 1705312800000000000"
    "\<not> i_isdir (inodes ex_sweep_os 11)"
    by (simp_all add: ex_sweep_os_def ex_os_def ex_days_ago_def ex_time_def ex_empty_inode_def)
  have u: "under ''.'' ''app.2024-01-01.log''"
    by (simp add: under_def HasPrefix_def)
  have hp: "HasPrefix ''app.2024-01-01.log'' ''app''" "HasSuffix ''app.2024-01-01.log'' ''.log''"
    "\<not> HasSuffix ''notes.txt'' ''.log''"
    by (simp_all add: HasPrefix_def HasSuffix_def)
  from deleteOldLog_deletes[OF nf range, of "''app.2024-01-01.log''"]
  have a: "map_of (dirents (deleteOldLog ex_writer ex_sweep_os)) ''app.2024-01-01.log'' = None"
    by (simp add: ex_sweep_facts md d t u hp)
  from deleteOldLog_deletes[OF nf range, of "''app.2024-01-14.log''"]
  have b: "map_of (dirents (deleteOldLog ex_writer ex_sweep_os)) ''app.2024-01-14.log'' = Some 12"
    by (simp add: ex_sweep_facts md d t)
  from deleteOldLog_deletes[OF nf range, of "''notes.txt''"]
  have c: "map_of (dirents (deleteOldLog ex_writer ex_sweep_os)) ''notes.txt'' = Some 13"
    by (simp add: ex_sweep_facts md d hp)
  show ?thesis
    using a b c by simp
qed

text \<open>
  Outside that range the period wraps around: 200000 days of retention are a negative
  number of nanoseconds, and a file written a moment ago is older than the horizon.
\<close>

lemma retention_wraps:
  "retention (ex_writer\<lparr>MaxDays := 200000\<rparr>) = - 1166744073709551616"
  by (simp add: retention_def wrap64_def)

section \<open>The rotation policy and the size argument\<close>

text \<open>
  C9. \<^verbatim>\<open>needRotate\<close> does not read its size argument: any two sizes give the same
  answer. So the size trigger looks only at the bytes already counted: a write that
  finds the counter below \<open>MaxSize\<close> is appended whole without a rotation, and leaves
  the counter less than one message length above \<open>MaxSize\<close>.
\<close>

theorem needRotate_size_independent:
  "needRotate w sa day hour = needRotate w sb day hour \<and>
   (formatTimeHeader when = Some (hdr, d, h) \<longrightarrow> Rotate w \<longrightarrow> MaxSize w > 0 \<longrightarrow>
    \<not> needRotate w sa d h \<longrightarrow>
    f_Write (fileWriter w) (if StripColors w then Strip msg else msg) os = (None, os1) \<longrightarrow>
    (\<exists>w'. WriteMsg Strip when msg w os = Some (None, w', os1) \<and>
          maxSizeCurSize w' =
            maxSizeCurSize w + int (length (if StripColors w then Strip msg else msg)) \<and>
          maxSizeCurSize w < MaxSize w \<and>
          maxSizeCurSize w' <
            MaxSize w + int (length (if StripColors w then Strip msg else msg))))"
proof (intro conjI impI)
  show "needRotate w sa day hour = needRotate w sb day hour"
    by (rule needRotate_size)
next
  assume h: "formatTimeHeader when = Some (hdr, d, h)" and m: "MaxSize w > 0"
    and n: "\<not> needRotate w sa d h"
    and wr: "f_Write (fileWriter w) (if StripColors w then Strip msg else msg) os = (None, os1)"
  let ?m = "if StripColors w then Strip msg else msg"
  have lt: "maxSizeCurSize w < MaxSize w"
    using n m by (auto simp: needRotate_def)
  have "WriteMsg Strip when msg w os = Some (appendMsg ?m w os)"
    using WriteMsg_no_rotation[OF h, of w sa] n by simp
  moreover have "appendMsg ?m w os =
      (None, w\<lparr>maxLinesCurLines := maxLinesCurLines w + 1,
               maxSizeCurSize := maxSizeCurSize w + int (length ?m)\<rparr>, os1)"
    using wr by (simp add: appendMsg_def)
  ultimately show "\<exists>w'. WriteMsg Strip when msg w os = Some (None, w', os1) \<and>
          maxSizeCurSize w' = maxSizeCurSize w + int (length ?m) \<and>
          maxSizeCurSize w < MaxSize w \<and>
          maxSizeCurSize w' < MaxSize w + int (length ?m)"
    using lt by simp
qed

text \<open>
  With \<open>MaxSize = 5\<close> and four bytes counted, a ten-byte message is appended without a
  rotation and the counter stands at 14.
\<close>

theorem needRotate_size_independent_witness:
  "\<exists>w' os1.
     WriteMsg id ex_time ''0123456789''
       (ex_writer\<lparr>MaxSize := 5, maxSizeCurSize := 4\<rparr>) ex_os = Some (None, w', os1) \<and>
     maxSizeCurSize w' = 14 \<and> MaxSize (ex_writer\<lparr>MaxSize := 5, maxSizeCurSize := 4\<rparr>) = 5"
proof -
  let ?w = "ex_writer\<lparr>MaxSize := 5, maxSizeCurSize := 4\<rparr>"
  let ?m = "if StripColors ?w then id ''0123456789'' else ''0123456789''"
  have r: "Rotate ?w" "MaxSize ?w > 0" "\<not> needRotate ?w 0 15 10"
    by (simp_all add: ex_writer_def needRotate_def)
  obtain os1 where wr: "f_Write (fileWriter ?w) ?m ex_os = (None, os1)"
    by (simp add: f_Write_def ex_writer_def ex_os_def)
  from needRotate_size_independent[of ?w 0 0 0 0 ex_time _ 15 10 id "''0123456789''" ex_os os1]
    ex_time_header r wr
  obtain w' where "WriteMsg id ex_time ''0123456789'' ?w ex_os = Some (None, w', os1)"
    and "maxSizeCurSize w' = maxSizeCurSize ?w + int (length ?m)"
    by blast
  then show ?thesis
    by (auto simp: ex_writer_def)
qed

section \<open>Counting writes against counting newlines\<close>




end
